theory Spec2Isabelle
  imports Complex_Main "HOL-Library.Sublist"
begin

section \<open>Values of the runtime\<close>

text \<open>
  The program is JavaScript. Its values are modelled by \<open>jsval\<close>. A string is a list of
  code units; the model covers the code units below 256 (one \<open>char\<close> each), on which
  \<open>trim\<close>, the class \<open>\s\<close> and \<open>toLowerCase\<close> are given in full below. A number is
  \<open>NaN\<close>, an infinity or a finite value, kept as an exact rational: a literal has the sign,
  the zero test and the finiteness the runtime gives it, the rounding to the nearest double
  is not modelled (a sum of two finite numbers is their exact sum), and the two zeros are
  one. An object is the list of its own properties;
  \<open>Object.prototype\<close> is taken as the runtime ships it, and a key that names one of its
  members (\<open>constructor\<close>, \<open>toString\<close>, ...) is outside the model.
\<close>

datatype jsnum = NaN | PosInf | NegInf | Fin rat

datatype jsval =
    JUndefined
  | JNull
  | JBool bool
  | JNum jsnum
  | JStr string
  | JArr "jsval list"
  | JObj "(string \<times> jsval) list"

text \<open>Everything the modelled functions can throw.\<close>

datatype error =
    TypeError                       \<comment> \<open>the runtime: a property read on \<open>null\<close> or \<open>undefined\<close>\<close>
  | SyntaxError                     \<comment> \<open>\<open>JSON.parse\<close>\<close>
  | ExpectedArray                   \<comment> \<open>the parsed data is not an array\<close>
  | AreasNotArray                   \<comment> \<open>the interactive areas are not an array\<close>
  | MissingField nat string         \<comment> \<open>area number, required field it lacks\<close>
  | WrongType string nat string     \<comment> \<open>field, area number, expected type\<close>

subsection \<open>Truthiness and \<open>typeof\<close>\<close>

fun to_boolean :: "jsval \<Rightarrow> bool" where
  "to_boolean JUndefined = False"
| "to_boolean JNull = False"
| "to_boolean (JBool b) = b"
| "to_boolean (JNum n) = (n \<noteq> NaN \<and> n \<noteq> Fin 0)"
| "to_boolean (JStr s) = (s \<noteq> [])"
| "to_boolean (JArr xs) = True"
| "to_boolean (JObj ps) = True"

fun typeof :: "jsval \<Rightarrow> string" where
  "typeof JUndefined = ''undefined''"
| "typeof JNull = ''object''"
| "typeof (JBool b) = ''boolean''"
| "typeof (JNum n) = ''number''"
| "typeof (JStr s) = ''string''"
| "typeof (JArr xs) = ''object''"
| "typeof (JObj ps) = ''object''"

subsection \<open>Strings: white space, \<open>trim\<close>, \<open>toLowerCase\<close>\<close>

text \<open>
  The white space of the language below code unit 256: TAB, LF, VT, FF, CR, SP and NBSP.
  \<open>trim\<close> and the regular-expression class \<open>\s\<close> use the same set.
\<close>

definition is_space :: "char \<Rightarrow> bool" where
  "is_space c \<longleftrightarrow>
     c \<in> set [CHR 0x09, CHR 0x0A, CHR 0x0B, CHR 0x0C, CHR 0x0D, CHR 0x20, CHR 0xA0]"

definition js_trim :: "string \<Rightarrow> string" where
  "js_trim s = rev (dropWhile is_space (rev (dropWhile is_space s)))"

text \<open>A text with no white space at either end.\<close>

definition trimmed :: "string \<Rightarrow> bool" where
  "trimmed s \<longleftrightarrow> s = [] \<or> (\<not> is_space (hd s) \<and> \<not> is_space (last s))"

text \<open>
  \<open>toLowerCase\<close> below code unit 256: the letters A-Z, and U+00C0-U+00DE without the
  multiplication sign U+00D7, move up by 32; every other code unit stays.
\<close>

definition upper_chars :: string where
  "upper_chars = ''ABCDEFGHIJKLMNOPQRSTUVWXYZ'' @
     [CHR 0xC0, CHR 0xC1, CHR 0xC2, CHR 0xC3, CHR 0xC4, CHR 0xC5, CHR 0xC6, CHR 0xC7,
      CHR 0xC8, CHR 0xC9, CHR 0xCA, CHR 0xCB, CHR 0xCC, CHR 0xCD, CHR 0xCE, CHR 0xCF,
      CHR 0xD0, CHR 0xD1, CHR 0xD2, CHR 0xD3, CHR 0xD4, CHR 0xD5, CHR 0xD6,
      CHR 0xD8, CHR 0xD9, CHR 0xDA, CHR 0xDB, CHR 0xDC, CHR 0xDD, CHR 0xDE]"

definition lower_chars :: string where
  "lower_chars = ''abcdefghijklmnopqrstuvwxyz'' @
     [CHR 0xE0, CHR 0xE1, CHR 0xE2, CHR 0xE3, CHR 0xE4, CHR 0xE5, CHR 0xE6, CHR 0xE7,
      CHR 0xE8, CHR 0xE9, CHR 0xEA, CHR 0xEB, CHR 0xEC, CHR 0xED, CHR 0xEE, CHR 0xEF,
      CHR 0xF0, CHR 0xF1, CHR 0xF2, CHR 0xF3, CHR 0xF4, CHR 0xF5, CHR 0xF6,
      CHR 0xF8, CHR 0xF9, CHR 0xFA, CHR 0xFB, CHR 0xFC, CHR 0xFD, CHR 0xFE]"

definition lower_char :: "char \<Rightarrow> char" where
  "lower_char c = (case map_of (zip upper_chars lower_chars) c of Some d \<Rightarrow> d | None \<Rightarrow> c)"

definition toLowerCase :: "string \<Rightarrow> string" where
  "toLowerCase s = map lower_char s"

text \<open>\<open>s.replace(a, b)\<close> with a one-character string \<open>a\<close>: the first occurrence only.\<close>

fun replace_first :: "char \<Rightarrow> string \<Rightarrow> string \<Rightarrow> string" where
  "replace_first a b [] = []"
| "replace_first a b (c # cs) = (if c = a then b @ cs else c # replace_first a b cs)"

fun intercalate :: "string \<Rightarrow> string list \<Rightarrow> string" where
  "intercalate sep [] = []"
| "intercalate sep [x] = x"
| "intercalate sep (x # y # ys) = x @ sep @ intercalate sep (y # ys)"

subsection \<open>Regular expressions\<close>

text \<open>
  The patterns of the program are sequences of character classes, each taken once or
  repeated. \<open>rx_match\<close> is the backtracking matcher of the language at one start position:
  the atoms are tried in order, a greedy repetition longest first, a lazy one shortest
  first, and the first way that lets the rest of the pattern match wins. The predicate
  \<open>ok\<close> is a lookahead at the end of the pattern. The result is the text each atom took.
\<close>

datatype atom =
    One "char \<Rightarrow> bool"        \<comment> \<open>\<open>[...]\<close>\<close>
  | Star "char \<Rightarrow> bool"       \<comment> \<open>\<open>[...]*\<close>\<close>
  | Plus "char \<Rightarrow> bool"       \<comment> \<open>\<open>[...]+\<close>\<close>
  | StarLazy "char \<Rightarrow> bool"   \<comment> \<open>\<open>[...]*?\<close>\<close>
  | PlusLazy "char \<Rightarrow> bool"   \<comment> \<open>\<open>[...]+?\<close>\<close>

fun cons_first :: "char \<Rightarrow> string list \<Rightarrow> string list" where
  "cons_first x [] = [[x]]"
| "cons_first x (seg # segs) = (x # seg) # segs"

function rx_match :: "atom list \<Rightarrow> (string \<Rightarrow> bool) \<Rightarrow> string \<Rightarrow> string list option" where
  "rx_match [] ok s = (if ok s then Some [] else None)"
| "rx_match (One c # as) ok [] = None"
| "rx_match (One c # as) ok (x # xs) =
     (if c x then map_option ((#) [x]) (rx_match as ok xs) else None)"
| "rx_match (Star c # as) ok [] = map_option ((#) []) (rx_match as ok [])"
| "rx_match (Star c # as) ok (x # xs) =
     (case (if c x then map_option (cons_first x) (rx_match (Star c # as) ok xs) else None) of
        Some segs \<Rightarrow> Some segs
      | None \<Rightarrow> map_option ((#) []) (rx_match as ok (x # xs)))"
| "rx_match (Plus c # as) ok [] = None"
| "rx_match (Plus c # as) ok (x # xs) =
     (if c x then map_option (cons_first x) (rx_match (Star c # as) ok xs) else None)"
| "rx_match (StarLazy c # as) ok [] = map_option ((#) []) (rx_match as ok [])"
| "rx_match (StarLazy c # as) ok (x # xs) =
     (case map_option ((#) []) (rx_match as ok (x # xs)) of
        Some segs \<Rightarrow> Some segs
      | None \<Rightarrow>
          (if c x then map_option (cons_first x) (rx_match (StarLazy c # as) ok xs) else None))"
| "rx_match (PlusLazy c # as) ok [] = None"
| "rx_match (PlusLazy c # as) ok (x # xs) =
     (if c x then map_option (cons_first x) (rx_match (StarLazy c # as) ok xs) else None)"
  by pat_completeness auto
termination
  by (relation "measures [\<lambda>(as, ok, s). length s, \<lambda>(as, ok, s). length as]") auto

text \<open>
  \<open>s.replace(/p/g, f)\<close>: the matches are taken from left to right, each starting where
  the one before ended, and the text between them is kept. Every pattern of the program
  takes at least one character, so a match never is empty.
\<close>

fun rx_replace ::
  "atom list \<Rightarrow> (string \<Rightarrow> bool) \<Rightarrow> (string list \<Rightarrow> string) \<Rightarrow> string \<Rightarrow> string" where
  "rx_replace as ok f [] = []"
| "rx_replace as ok f (x # xs) =
     (case rx_match as ok (x # xs) of
        None \<Rightarrow> x # rx_replace as ok f xs
      | Some segs \<Rightarrow> f segs @ rx_replace as ok f (drop (length (concat segs) - 1) xs))"


subsection \<open>\<open>String(v)\<close> and property reads\<close>

text \<open>
  \<open>String(v)\<close>. The text of a number is the runtime's \<open>Number::toString\<close>, which the
  functions below take as the parameter \<open>nts\<close>. An array prints its elements, \<open>null\<close>
  and \<open>undefined\<close> as nothing, joined by commas; an object prints as
  \<open>[object Object]\<close>.
\<close>

fun to_string :: "(jsnum \<Rightarrow> string) \<Rightarrow> jsval \<Rightarrow> string" where
  "to_string nts JUndefined = ''undefined''"
| "to_string nts JNull = ''null''"
| "to_string nts (JBool b) = (if b then ''true'' else ''false'')"
| "to_string nts (JNum n) = nts n"
| "to_string nts (JStr s) = s"
| "to_string nts (JArr xs) =
     intercalate '','' (map (\<lambda>v. if v = JUndefined \<or> v = JNull then [] else to_string nts v) xs)"
| "to_string nts (JObj ps) = ''[object Object]''"

fun nat_to_string :: "nat \<Rightarrow> string" where
  "nat_to_string n =
     (if n < 10 then [''0123456789'' ! n]
      else nat_to_string (n div 10) @ [''0123456789'' ! (n mod 10)])"

declare nat_to_string.simps [simp del]

definition obj_get :: "(string \<times> jsval) list \<Rightarrow> string \<Rightarrow> jsval" where
  "obj_get ps k = (case map_of ps k of Some v \<Rightarrow> v | None \<Rightarrow> JUndefined)"

text \<open>
  \<open>v[k]\<close> for a string key: an own property of an object; the length and the elements
  of an array or a string; \<open>undefined\<close> on a number or a boolean; a \<open>TypeError\<close> on
  \<open>null\<close> and \<open>undefined\<close>.
\<close>

fun get_prop :: "jsval \<Rightarrow> string \<Rightarrow> error + jsval" where
  "get_prop JUndefined k = Inl TypeError"
| "get_prop JNull k = Inl TypeError"
| "get_prop (JBool b) k = Inr JUndefined"
| "get_prop (JNum n) k = Inr JUndefined"
| "get_prop (JStr s) k =
     Inr (if k = ''length'' then JNum (Fin (of_nat (length s)))
          else case find (\<lambda>i. nat_to_string i = k) [0..<length s] of
                 Some i \<Rightarrow> JStr [s ! i]
               | None \<Rightarrow> JUndefined)"
| "get_prop (JArr xs) k =
     Inr (if k = ''length'' then JNum (Fin (of_nat (length xs)))
          else case find (\<lambda>i. nat_to_string i = k) [0..<length xs] of
                 Some i \<Rightarrow> xs ! i
               | None \<Rightarrow> JUndefined)"
| "get_prop (JObj ps) k = Inr (obj_get ps k)"

section \<open>The matcher (map.js)\<close>

text \<open>
  \<^verbatim>\<open>function normalizeStringValue(value) {
    if (value === undefined || value === null) return '';
    return String(value).trim().replace(/\s+/g, ' ').toLowerCase();
}\<close>
\<close>

definition normalizeStringValue :: "(jsnum \<Rightarrow> string) \<Rightarrow> jsval \<Rightarrow> string" where
  "normalizeStringValue nts v =
     (if v = JUndefined \<or> v = JNull then []
      else toLowerCase
             (rx_replace [Plus is_space] (\<lambda>r. True) (\<lambda>segs. '' '')
                (js_trim (to_string nts v))))"

text \<open>\<open>xs.filter(p)\<close> with a callback that can throw: the first throw ends the call.\<close>

fun filter_items :: "(jsval \<Rightarrow> error + bool) \<Rightarrow> jsval list \<Rightarrow> error + jsval list" where
  "filter_items p [] = Inr []"
| "filter_items p (x # xs) =
     (case p x of
        Inl e \<Rightarrow> Inl e
      | Inr b \<Rightarrow>
          (case filter_items p xs of
             Inl e \<Rightarrow> Inl e
           | Inr ys \<Rightarrow> Inr (if b then x # ys else ys)))"

text \<open>
  \<^verbatim>\<open>function filterDataByObject(dataArray, matchField, matchValue) {
    if (!dataArray || !Array.isArray(dataArray)) { return []; }
    const normalizedMatchValue = normalizeStringValue(matchValue);
    return dataArray.filter(item => {
        const fieldValue = item[matchField];
        if (!fieldValue) return false;
        const normalizedFieldValue = normalizeStringValue(fieldValue);
        return (
            normalizedFieldValue === normalizedMatchValue ||
            normalizedFieldValue.includes(normalizedMatchValue) ||
            normalizedMatchValue.includes(normalizedFieldValue)
        );
    });
}\<close>
  \<open>a.includes(b)\<close> on strings is \<open>sublist b a\<close>.
\<close>

definition item_matches :: "(jsnum \<Rightarrow> string) \<Rightarrow> string \<Rightarrow> string \<Rightarrow> jsval \<Rightarrow> error + bool" where
  "item_matches nts matchField normalizedMatchValue item =
     (case get_prop item matchField of
        Inl e \<Rightarrow> Inl e
      | Inr fieldValue \<Rightarrow>
          if \<not> to_boolean fieldValue then Inr False
          else
            let normalizedFieldValue = normalizeStringValue nts fieldValue
            in Inr (normalizedFieldValue = normalizedMatchValue \<or>
                    sublist normalizedMatchValue normalizedFieldValue \<or>
                    sublist normalizedFieldValue normalizedMatchValue))"

definition filterDataByObject ::
  "(jsnum \<Rightarrow> string) \<Rightarrow> jsval \<Rightarrow> string \<Rightarrow> jsval \<Rightarrow> error + jsval list" where
  "filterDataByObject nts dataArray matchField matchValue =
     (case dataArray of
        JArr items \<Rightarrow>
          (let normalizedMatchValue = normalizeStringValue nts matchValue
           in filter_items (item_matches nts matchField normalizedMatchValue) items)
      | _ \<Rightarrow> Inr [])"

text \<open>
  The records the popup shows for a region (\<open>showPopup\<close>, when the data is an array):
  \<^verbatim>\<open>const normalizedMatchValue = normalizeStringValue(areaConfig.matchValue || areaConfig.name);
const filteredData = filterDataByObject(parsedData, areaConfig.matchField || <default>,
    normalizedMatchValue);\<close>
  The default field name is a constant of the source outside the code units of the model and
  is the parameter \<open>defaultField\<close>.
\<close>

definition js_or :: "jsval \<Rightarrow> jsval \<Rightarrow> jsval" where
  "js_or a b = (if to_boolean a then a else b)"

definition showPopup_filteredData ::
  "(jsnum \<Rightarrow> string) \<Rightarrow> string \<Rightarrow> jsval \<Rightarrow> (string \<times> jsval) list \<Rightarrow> error + jsval list" where
  "showPopup_filteredData nts defaultField parsedData areaConfig =
     (let normalizedMatchValue =
            normalizeStringValue nts
              (js_or (obj_get areaConfig ''matchValue'') (obj_get areaConfig ''name''))
      in filterDataByObject nts parsedData
           (to_string nts (js_or (obj_get areaConfig ''matchField'') (JStr defaultField)))
           (JStr normalizedMatchValue))"

subsection \<open>The normalization in the words of the specification\<close>

text \<open>
  Convert to text (a missing value is the empty text), trim, collapse every run of white
  space to one space, lowercase.
\<close>

function collapse_spaces :: "string \<Rightarrow> string" where
  "collapse_spaces [] = []"
| "collapse_spaces (c # cs) =
     (if is_space c then CHR '' '' # collapse_spaces (dropWhile is_space cs)
      else c # collapse_spaces cs)"
  by pat_completeness auto
termination
  by (relation "measure length") (auto simp: less_Suc_eq_le length_dropWhile_le)

definition spec_normalize :: "(jsnum \<Rightarrow> string) \<Rightarrow> jsval \<Rightarrow> string" where
  "spec_normalize nts v =
     (let text = (if v = JUndefined \<or> v = JNull then [] else to_string nts v)
      in map lower_char (collapse_spaces (js_trim text)))"


text \<open>Two normalized values match if they are equal or one contains the other.\<close>

definition values_match :: "string \<Rightarrow> string \<Rightarrow> bool" where
  "values_match a b \<longleftrightarrow> a = b \<or> sublist a b \<or> sublist b a"

section \<open>Numbers\<close>

subsection \<open>Comparison and addition\<close>

text \<open>
  \<open><\<close>, \<open><=\<close>, \<open>>\<close> and \<open>+\<close> on numbers. A comparison with \<open>NaN\<close> is false. The sum of
  two finite numbers is their exact sum (the runtime rounds it to the nearest double).
\<close>

fun is_finite :: "jsnum \<Rightarrow> bool" where
  "is_finite (Fin q) = True"
| "is_finite n = False"

fun num_lt :: "jsnum \<Rightarrow> jsnum \<Rightarrow> bool" where
  "num_lt NaN b = False"
| "num_lt a NaN = False"
| "num_lt (Fin a) (Fin b) = (a < b)"
| "num_lt (Fin a) PosInf = True"
| "num_lt (Fin a) NegInf = False"
| "num_lt NegInf (Fin b) = True"
| "num_lt NegInf PosInf = True"
| "num_lt NegInf NegInf = False"
| "num_lt PosInf b = False"

definition num_gt :: "jsnum \<Rightarrow> jsnum \<Rightarrow> bool" where
  "num_gt a b = num_lt b a"

definition num_le :: "jsnum \<Rightarrow> jsnum \<Rightarrow> bool" where
  "num_le a b \<longleftrightarrow> num_lt a b \<or> (a = b \<and> a \<noteq> NaN)"

fun num_add :: "jsnum \<Rightarrow> jsnum \<Rightarrow> jsnum" where
  "num_add NaN b = NaN"
| "num_add a NaN = NaN"
| "num_add (Fin a) (Fin b) = Fin (a + b)"
| "num_add (Fin a) b = b"
| "num_add a (Fin b) = a"
| "num_add PosInf PosInf = PosInf"
| "num_add NegInf NegInf = NegInf"
| "num_add PosInf NegInf = NaN"
| "num_add NegInf PosInf = NaN"

subsection \<open>\<open>Number(s)\<close> on a string\<close>

text \<open>
  The value of a literal that denotes the rational \<open>q\<close>: an infinity from
  \<open>2^1024 - 2^970\<close> on, zero up to \<open>2^-1075\<close>, and otherwise \<open>q\<close> itself (the runtime
  rounds it to the nearest double).
\<close>

definition number_of_rat :: "rat \<Rightarrow> jsnum" where
  "number_of_rat q =
     (if 2 ^ 1024 - 2 ^ 970 \<le> \<bar>q\<bar> then (if 0 < q then PosInf else NegInf)
      else if \<bar>q\<bar> * 2 ^ 1075 \<le> 1 then Fin 0
      else Fin q)"

definition is_digit :: "char \<Rightarrow> bool" where
  "is_digit c \<longleftrightarrow> c \<in> set ''0123456789''"

text \<open>The value of a digit in a base up to 16, and of a row of digits.\<close>

definition digit_value :: "char \<Rightarrow> nat" where
  "digit_value c = length (takeWhile (\<lambda>d. d \<noteq> lower_char c) ''0123456789abcdef'')"

definition digits_value :: "nat \<Rightarrow> string \<Rightarrow> nat" where
  "digits_value base ds = foldl (\<lambda>a c. base * a + digit_value c) 0 ds"

definition scale10 :: "rat \<Rightarrow> int \<Rightarrow> rat" where
  "scale10 q e = (if 0 \<le> e then q * 10 ^ nat e else q / 10 ^ nat (- e))"

text \<open>
  The exponent part of a decimal literal: nothing, or \<open>e\<close> or \<open>E\<close>, an optional sign and
  at least one digit.
\<close>

definition exponent_part :: "string \<Rightarrow> int option" where
  "exponent_part r =
     (case r of
        [] \<Rightarrow> Some 0
      | c # ds \<Rightarrow>
          if c \<noteq> CHR ''e'' \<and> c \<noteq> CHR ''E'' then None
          else
            let neg = (ds \<noteq> [] \<and> hd ds = CHR ''-'');
                ds' = (if ds \<noteq> [] \<and> (hd ds = CHR ''+'' \<or> hd ds = CHR ''-'') then tl ds else ds)
            in if ds' \<noteq> [] \<and> list_all is_digit ds'
               then Some (if neg then - int (digits_value 10 ds') else int (digits_value 10 ds'))
               else None)"

text \<open>
  An unsigned decimal literal: \<open>Infinity\<close>; or digits, an optional point with optional
  digits, and an optional exponent; or a point, digits and an optional exponent.
\<close>

definition unsigned_decimal :: "string \<Rightarrow> jsnum option" where
  "unsigned_decimal u =
     (if u = ''Infinity'' then Some PosInf
      else
        let int_part = takeWhile is_digit u;
            r1 = dropWhile is_digit u;
            has_point = (r1 \<noteq> [] \<and> hd r1 = CHR ''.'');
            frac_part = (if has_point then takeWhile is_digit (tl r1) else []);
            r2 = (if has_point then dropWhile is_digit (tl r1) else r1)
        in if int_part = [] \<and> frac_part = [] then None
           else
             (case exponent_part r2 of
                None \<Rightarrow> None
              | Some e \<Rightarrow>
                  Some (number_of_rat
                    (scale10 (of_nat (digits_value 10 (int_part @ frac_part)))
                       (e - int (length frac_part))))))"

fun num_neg :: "jsnum \<Rightarrow> jsnum" where
  "num_neg NaN = NaN"
| "num_neg PosInf = NegInf"
| "num_neg NegInf = PosInf"
| "num_neg (Fin q) = Fin (- q)"

text \<open>A literal in base 16, 8 or 2: \<open>0x\<close>, \<open>0o\<close> or \<open>0b\<close> and at least one digit, no sign.\<close>

definition non_decimal :: "string \<Rightarrow> jsnum option" where
  "non_decimal t =
     (case t of
        z # b # ds \<Rightarrow>
          let base = (if b = CHR ''x'' \<or> b = CHR ''X'' then 16
                      else if b = CHR ''o'' \<or> b = CHR ''O'' then 8
                      else if b = CHR ''b'' \<or> b = CHR ''B'' then 2 else (0::nat))
          in if z = CHR ''0'' \<and> 0 < base \<and> ds \<noteq> [] \<and>
                list_all (\<lambda>c. lower_char c \<in> set ''0123456789abcdef'' \<and> digit_value c < base) ds
             then Some (number_of_rat (of_nat (digits_value base ds)))
             else None
      | _ \<Rightarrow> None)"

text \<open>
  \<open>Number(s)\<close>: white space around the text is dropped; the empty text is 0; a text that
  is no numeric literal is \<open>NaN\<close>.
\<close>

definition string_to_number :: "string \<Rightarrow> jsnum" where
  "string_to_number s =
     (let t = js_trim s
      in if t = [] then Fin 0
         else
           (case non_decimal t of
              Some n \<Rightarrow> n
            | None \<Rightarrow>
                (case (if hd t = CHR ''-'' then map_option num_neg (unsigned_decimal (tl t))
                       else if hd t = CHR ''+'' then unsigned_decimal (tl t)
                       else unsigned_decimal t) of
                   Some n \<Rightarrow> n
                 | None \<Rightarrow> NaN)))"

text \<open>\<open>Number(v)\<close>: an array or an object goes through its text.\<close>

fun to_number :: "(jsnum \<Rightarrow> string) \<Rightarrow> jsval \<Rightarrow> jsnum" where
  "to_number nts JUndefined = NaN"
| "to_number nts JNull = Fin 0"
| "to_number nts (JBool b) = (if b then Fin 1 else Fin 0)"
| "to_number nts (JNum n) = n"
| "to_number nts (JStr s) = string_to_number s"
| "to_number nts (JArr xs) = string_to_number (to_string nts (JArr xs))"
| "to_number nts (JObj ps) = string_to_number (to_string nts (JObj ps))"

section \<open>The bounds of a region (map.js)\<close>

text \<open>
  The messages of \<open>validateAreaBounds\<close>, in the order of the source: the configuration is
  missing or no object; a field is no number; a width or height is not above 0; an x or y
  is negative; the region passes the right edge; the region passes the bottom edge.
\<close>

datatype bounds_error =
    BadConfig
  | NotNumber string
  | NotPositive string
  | IsNegative string
  | BeyondRight
  | BeyondBottom

record validation =
  isValid :: bool
  errors :: "bounds_error list"

text \<open>
  \<open>Number(areaConfig[field])\<close>. The configuration is an object or an array where this is
  read, so the read does not throw.
\<close>

definition numeric_value :: "(jsnum \<Rightarrow> string) \<Rightarrow> jsval \<Rightarrow> string \<Rightarrow> jsnum" where
  "numeric_value nts areaConfig field =
     to_number nts (case get_prop areaConfig field of Inr v \<Rightarrow> v | Inl e \<Rightarrow> JUndefined)"

text \<open>
  The body of the loop over \<open>['x', 'y', 'width', 'height']\<close>:
  \<^verbatim>\<open>const value = Number(areaConfig[field]);
numericValues[field] = value;
if (!Number.isFinite(value)) { errors.push(...); return; }
if ((field === 'width' || field === 'height') && value <= 0) { errors.push(...); }
if ((field === 'x' || field === 'y') && value < 0) { errors.push(...); }\<close>
\<close>

definition field_errors :: "(jsnum \<Rightarrow> string) \<Rightarrow> jsval \<Rightarrow> string \<Rightarrow> bounds_error list" where
  "field_errors nts areaConfig field =
     (let v = numeric_value nts areaConfig field
      in if \<not> is_finite v then [NotNumber field]
         else
           (if (field = ''width'' \<or> field = ''height'') \<and> num_le v (Fin 0)
            then [NotPositive field] else []) @
           (if (field = ''x'' \<or> field = ''y'') \<and> num_lt v (Fin 0)
            then [IsNegative field] else []))"

text \<open>
  \<^verbatim>\<open>function validateAreaBounds(areaConfig, naturalWidth, naturalHeight) {
    const errors = [];
    if (!areaConfig || typeof areaConfig !== 'object') {
        errors.push(...); return { isValid: false, errors };
    }
    ... the loop over the four fields ...
    if (Number.isFinite(numericValues.x) && Number.isFinite(numericValues.width)) {
        if (numericValues.x + numericValues.width > naturalWidth) { errors.push(...); }
    }
    if (Number.isFinite(numericValues.y) && Number.isFinite(numericValues.height)) {
        if (numericValues.y + numericValues.height > naturalHeight) { errors.push(...); }
    }
    return { isValid: errors.length === 0, errors };
}\<close>
\<close>

definition validateAreaBounds ::
  "(jsnum \<Rightarrow> string) \<Rightarrow> jsval \<Rightarrow> jsnum \<Rightarrow> jsnum \<Rightarrow> validation" where
  "validateAreaBounds nts areaConfig naturalWidth naturalHeight =
     (if \<not> to_boolean areaConfig \<or> typeof areaConfig \<noteq> ''object''
      then \<lparr>isValid = False, errors = [BadConfig]\<rparr>
      else
        let x = numeric_value nts areaConfig ''x'';
            y = numeric_value nts areaConfig ''y'';
            width = numeric_value nts areaConfig ''width'';
            height = numeric_value nts areaConfig ''height'';
            errs =
              concat (map (field_errors nts areaConfig) [''x'', ''y'', ''width'', ''height'']) @
              (if is_finite x \<and> is_finite width \<and> num_gt (num_add x width) naturalWidth
               then [BeyondRight] else []) @
              (if is_finite y \<and> is_finite height \<and> num_gt (num_add y height) naturalHeight
               then [BeyondBottom] else [])
        in \<lparr>isValid = (errs = []), errors = errs\<rparr>)"

section \<open>The schema of the regions (map.js)\<close>

text \<open>
  \<^verbatim>\<open>const interactiveAreaSchema = {
    required: ['name', 'x', 'y', 'width', 'height', 'matchField'],
    propertyTypes: { name: 'string', x: 'number', y: 'number', width: 'number',
        height: 'number', matchField: 'string', matchValue: 'string' }
};\<close>
\<close>

definition required_fields :: "string list" where
  "required_fields = [''name'', ''x'', ''y'', ''width'', ''height'', ''matchField'']"

definition numeric_fields :: "string list" where
  "numeric_fields = [''x'', ''y'', ''width'', ''height'']"

definition propertyTypes :: "(string \<times> string) list" where
  "propertyTypes =
     [(''name'', ''string''), (''x'', ''number''), (''y'', ''number''), (''width'', ''number''),
      (''height'', ''number''), (''matchField'', ''string''), (''matchValue'', ''string'')]"

text \<open>\<open>o[k] = v\<close> on an object: the property is replaced where it stands, or added last.\<close>

fun obj_set :: "(string \<times> jsval) list \<Rightarrow> string \<Rightarrow> jsval \<Rightarrow> (string \<times> jsval) list" where
  "obj_set [] k v = [(k, v)]"
| "obj_set ((k', v') # ps) k v = (if k' = k then (k, v) # ps else (k', v') # obj_set ps k v)"

text \<open>
  \<open>area[k] = v\<close>. Only an object gets here: anything else has no \<open>name\<close> and was refused
  by the check of the required fields.
\<close>

fun set_prop :: "jsval \<Rightarrow> string \<Rightarrow> jsval \<Rightarrow> jsval" where
  "set_prop (JObj ps) k v = JObj (obj_set ps k v)"
| "set_prop area k v = area"

text \<open>
  \<^verbatim>\<open>interactiveAreaSchema.required.forEach(field => {
    if (area[field] === undefined) { throw new Error(... index + 1 ... field ...); }
});\<close>
\<close>

fun check_required :: "jsval \<Rightarrow> nat \<Rightarrow> string list \<Rightarrow> error + unit" where
  "check_required area index [] = Inr ()"
| "check_required area index (field # others) =
     (case get_prop area field of
        Inl e \<Rightarrow> Inl e
      | Inr v \<Rightarrow>
          if v = JUndefined then Inl (MissingField (index + 1) field)
          else check_required area index others)"

text \<open>
  \<^verbatim>\<open>['x', 'y', 'width', 'height'].forEach(field => {
    if (area[field] !== undefined) {
        area[field] = Number(String(area[field]).replace(',', '.'));
    }
});\<close>
\<close>

definition coerce_number :: "(jsnum \<Rightarrow> string) \<Rightarrow> jsval \<Rightarrow> jsval" where
  "coerce_number nts v = JNum (string_to_number (replace_first CHR '','' ''.'' (to_string nts v)))"

fun coerce_fields :: "(jsnum \<Rightarrow> string) \<Rightarrow> jsval \<Rightarrow> string list \<Rightarrow> error + jsval" where
  "coerce_fields nts area [] = Inr area"
| "coerce_fields nts area (field # others) =
     (case get_prop area field of
        Inl e \<Rightarrow> Inl e
      | Inr v \<Rightarrow>
          coerce_fields nts
            (if v \<noteq> JUndefined then set_prop area field (coerce_number nts v) else area)
            others)"

text \<open>One step of that loop on the properties of an object.\<close>

definition coerced ::
  "(jsnum \<Rightarrow> string) \<Rightarrow> (string \<times> jsval) list \<Rightarrow> string \<Rightarrow> (string \<times> jsval) list" where
  "coerced nts ps f =
     (if obj_get ps f \<noteq> JUndefined then obj_set ps f (coerce_number nts (obj_get ps f)) else ps)"

text \<open>
  \<^verbatim>\<open>Object.entries(interactiveAreaSchema.propertyTypes).forEach(([field, type]) => {
    if (area[field] !== undefined && typeof area[field] !== type) {
        throw new Error(... field ... index + 1 ... type ...);
    }
});\<close>
\<close>

fun check_types :: "jsval \<Rightarrow> nat \<Rightarrow> (string \<times> string) list \<Rightarrow> error + unit" where
  "check_types area index [] = Inr ()"
| "check_types area index ((field, type) # rest) =
     (case get_prop area field of
        Inl e \<Rightarrow> Inl e
      | Inr v \<Rightarrow>
          if v \<noteq> JUndefined \<and> typeof v \<noteq> type then Inl (WrongType field (index + 1) type)
          else check_types area index rest)"

text \<open>The callback of \<open>data.forEach\<close>; it returns the area as the assignments leave it.\<close>

definition validate_area :: "(jsnum \<Rightarrow> string) \<Rightarrow> jsval \<Rightarrow> nat \<Rightarrow> error + jsval" where
  "validate_area nts area index =
     (case check_required area index required_fields of
        Inl e \<Rightarrow> Inl e
      | Inr u \<Rightarrow>
          (case coerce_fields nts area numeric_fields of
             Inl e \<Rightarrow> Inl e
           | Inr area' \<Rightarrow>
               (case check_types area' index propertyTypes of
                  Inl e \<Rightarrow> Inl e
                | Inr u \<Rightarrow> Inr area')))"

fun validate_areas :: "(jsnum \<Rightarrow> string) \<Rightarrow> nat \<Rightarrow> jsval list \<Rightarrow> error + jsval list" where
  "validate_areas nts index [] = Inr []"
| "validate_areas nts index (area # rest) =
     (case validate_area nts area index of
        Inl e \<Rightarrow> Inl e
      | Inr area' \<Rightarrow>
          (case validate_areas nts (index + 1) rest of
             Inl e \<Rightarrow> Inl e
           | Inr rest' \<Rightarrow> Inr (area' # rest')))"

text \<open>
  \<^verbatim>\<open>function validateInteractiveAreasData(data) {
    if (!Array.isArray(data)) { throw new Error(...); }
    data.forEach((area, index) => { ... });
}\<close>
  The function changes the areas in place; the model returns the array as it is after
  the call, or the error thrown.
\<close>

definition validateInteractiveAreasData :: "(jsnum \<Rightarrow> string) \<Rightarrow> jsval \<Rightarrow> error + jsval" where
  "validateInteractiveAreasData nts data =
     (case data of
        JArr areas \<Rightarrow>
          (case validate_areas nts 0 areas of Inl e \<Rightarrow> Inl e | Inr areas' \<Rightarrow> Inr (JArr areas'))
      | _ \<Rightarrow> Inl AreasNotArray)"

section \<open>\<open>JSON.parse\<close>\<close>

text \<open>
  \<open>JSON.parse\<close> is the runtime's. It is modelled after the JSON grammar: the text is cut
  into tokens, with white space (space, TAB, LF, CR) allowed around every token, and the
  tokens are parsed with a stack. \<open>None\<close> is the \<open>SyntaxError\<close>.
\<close>

datatype token =
    TLBrace | TRBrace | TLBracket | TRBracket | TColon | TComma
  | TString string
  | TNumber jsnum
  | TTrue | TFalse | TNull

definition json_space :: "char \<Rightarrow> bool" where
  "json_space c \<longleftrightarrow> c \<in> set [CHR 0x20, CHR 0x09, CHR 0x0A, CHR 0x0D]"

fun strip_prefix :: "string \<Rightarrow> string \<Rightarrow> string option" where
  "strip_prefix [] s = Some s"
| "strip_prefix (p # ps) [] = None"
| "strip_prefix (p # ps) (c # cs) = (if p = c then strip_prefix ps cs else None)"

definition is_hex :: "char \<Rightarrow> bool" where
  "is_hex c \<longleftrightarrow> c \<in> set ''0123456789abcdefABCDEF''"

text \<open>
  The four hexadecimal digits of \<open>\uXXXX\<close>. An escape that denotes a code unit from 256
  on is outside the code units of the model, and the scan fails on it.
\<close>

definition hex4 :: "string \<Rightarrow> (char \<times> string) option" where
  "hex4 r =
     (if 4 \<le> length r \<and> list_all is_hex (take 4 r) \<and> digits_value 16 (take 4 r) < 256
      then Some (char_of (digits_value 16 (take 4 r)), drop 4 r) else None)"

lemma hex4_shorter: "hex4 r = Some (d, r') \<Longrightarrow> length r' < length r"
  by (auto simp: hex4_def split: if_splits)

definition simple_escape :: "char \<Rightarrow> char option" where
  "simple_escape e =
     map_of [(CHR 0x22, CHR 0x22), (CHR 0x5C, CHR 0x5C), (CHR ''/'', CHR ''/''),
             (CHR ''b'', CHR 0x08), (CHR ''f'', CHR 0x0C), (CHR ''n'', CHR 0x0A),
             (CHR ''r'', CHR 0x0D), (CHR ''t'', CHR 0x09)] e"

text \<open>
  A string after its opening quote: the characters up to the closing quote, with the
  escapes replaced; a control character below U+0020 is not allowed in it.
\<close>

function scan_string :: "string \<Rightarrow> (string \<times> string) option" where
  "scan_string [] = None"
| "scan_string (c # cs) =
     (if c = CHR 0x22 then Some ([], cs)
      else if c = CHR 0x5C then
        (case cs of
           [] \<Rightarrow> None
         | e # r \<Rightarrow>
             if e = CHR ''u'' then
               (case hex4 r of
                  None \<Rightarrow> None
                | Some (d, r') \<Rightarrow> map_option (\<lambda>(s, rest). (d # s, rest)) (scan_string r'))
             else
               (case simple_escape e of
                  None \<Rightarrow> None
                | Some d \<Rightarrow> map_option (\<lambda>(s, rest). (d # s, rest)) (scan_string r)))
      else if of_char c < (32::nat) then None
      else map_option (\<lambda>(s, rest). (c # s, rest)) (scan_string cs))"
  by pat_completeness auto
termination
  by (relation "measure length") (auto dest: hex4_shorter)

text \<open>
  A number: an optional minus, \<open>0\<close> or digits that do not start with 0, an optional
  fraction, an optional exponent.
\<close>

definition frac_part :: "string \<Rightarrow> (string \<times> string) option" where
  "frac_part r =
     (case r of
        [] \<Rightarrow> Some ([], [])
      | c # ds \<Rightarrow>
          if c = CHR ''.''
          then (if takeWhile is_digit ds = [] then None
                else Some (takeWhile is_digit ds, dropWhile is_digit ds))
          else Some ([], r))"

definition exp_part :: "string \<Rightarrow> (int \<times> string) option" where
  "exp_part r =
     (case r of
        [] \<Rightarrow> Some (0, [])
      | c # ds \<Rightarrow>
          if c = CHR ''e'' \<or> c = CHR ''E''
          then
            (let neg = (ds \<noteq> [] \<and> hd ds = CHR ''-'');
                 ds' = (if ds \<noteq> [] \<and> (hd ds = CHR ''+'' \<or> hd ds = CHR ''-'') then tl ds else ds)
             in if takeWhile is_digit ds' = [] then None
                else Some ((if neg then - int (digits_value 10 (takeWhile is_digit ds'))
                            else int (digits_value 10 (takeWhile is_digit ds'))),
                           dropWhile is_digit ds'))
          else Some (0, r))"

definition scan_number :: "string \<Rightarrow> (jsnum \<times> string) option" where
  "scan_number s =
     (let neg = (s \<noteq> [] \<and> hd s = CHR ''-'');
          s1 = (if neg then tl s else s);
          int_digits = (if s1 \<noteq> [] \<and> hd s1 = CHR ''0'' then ''0'' else takeWhile is_digit s1)
      in if int_digits = [] then None
         else
           (case frac_part (drop (length int_digits) s1) of
              None \<Rightarrow> None
            | Some (frac_digits, r2) \<Rightarrow>
                (case exp_part r2 of
                   None \<Rightarrow> None
                 | Some (e, r3) \<Rightarrow>
                     Some (number_of_rat
                             ((if neg then - 1 else 1) *
                              scale10 (of_nat (digits_value 10 (int_digits @ frac_digits)))
                                (e - int (length frac_digits))),
                           r3))))"

lemma scan_string_shorter: "scan_string cs = Some (s, rest) \<Longrightarrow> length rest < length cs"
proof (induction cs arbitrary: s rest rule: scan_string.induct)
  case 1
  then show ?case by simp
next
  case (2 c cs)
  show ?case
  proof (cases "c = CHR 0x22")
    case True
    with 2(4) show ?thesis by simp
  next
    case q: False
    show ?thesis
    proof (cases "c = CHR 0x5C")
      case True
      with q 2(4) obtain e r where cs: "cs = e # r" by (cases cs) auto
      show ?thesis
      proof (cases "e = CHR ''u''")
        case u: True
        with q True cs 2(4) obtain d r' s' where
          h: "hex4 r = Some (d, r')" and t: "scan_string r' = Some (s', rest)"
          by (auto split: option.splits)
        from 2(1)[OF q True cs u h refl t] hex4_shorter[OF h] cs show ?thesis by simp
      next
        case nu: False
        with q True cs 2(4) obtain d s' where
          h: "simple_escape e = Some d" and t: "scan_string r = Some (s', rest)"
          by (auto split: option.splits)
        from 2(2)[OF q True cs nu h t] cs show ?thesis by simp
      qed
    next
      case b: False
      with q 2(4) obtain s' where t: "scan_string cs = Some (s', rest)" and "\<not> of_char c < (32::nat)"
        by (auto split: if_splits)
      with 2(3)[OF q b] show ?thesis by fastforce
    qed
  qed
qed

lemma frac_part_shorter: "frac_part r = Some (fd, r') \<Longrightarrow> length r' \<le> length r"
  by (auto simp: frac_part_def split: list.splits if_splits
           intro: le_trans[OF length_dropWhile_le])

lemma exp_part_shorter: "exp_part r = Some (e, r') \<Longrightarrow> length r' \<le> length r"
proof -
  have d: "length (dropWhile is_digit ds) \<le> length ds" for ds :: string
    by (rule length_dropWhile_le)
  have t: "length (dropWhile is_digit (tl ds)) \<le> length ds" for ds :: string
    using d[of "tl ds"] by (cases ds) auto
  assume "exp_part r = Some (e, r')"
  then show ?thesis
    using d t by (auto simp: exp_part_def Let_def le_SucI split: list.splits if_splits)
qed

lemma scan_number_shorter: "scan_number s = Some (n, rest) \<Longrightarrow> length rest < length s"
proof -
  assume a: "scan_number s = Some (n, rest)"
  define s1 where "s1 = (if s \<noteq> [] \<and> hd s = CHR ''-'' then tl s else s)"
  define ids where "ids = (if s1 \<noteq> [] \<and> hd s1 = CHR ''0'' then ''0'' else takeWhile is_digit s1)"
  from a have ne: "ids \<noteq> []"
    by (auto simp: scan_number_def Let_def s1_def ids_def split: if_splits)
  from a ne obtain fd r2 e where
    f: "frac_part (drop (length ids) s1) = Some (fd, r2)" and x: "exp_part r2 = Some (e, rest)"
    by (auto simp: scan_number_def Let_def s1_def ids_def split: if_splits option.splits)
  have "length ids \<le> length s1"
    unfolding ids_def using length_takeWhile_le[of is_digit s1] by (cases s1) auto
  with ne have "length (drop (length ids) s1) < length s1" by (cases ids) auto
  moreover have "length s1 \<le> length s" by (simp add: s1_def)
  ultimately show ?thesis
    using frac_part_shorter[OF f] exp_part_shorter[OF x] by linarith
qed

lemma strip_prefix_shorter: "strip_prefix p s = Some rest \<Longrightarrow> length rest \<le> length s"
  by (induction p s rule: strip_prefix.induct) (auto split: if_splits)

text \<open>The tokens of one character.\<close>

definition punctuation :: "char \<Rightarrow> token option" where
  "punctuation c =
     map_of [(CHR ''{'', TLBrace), (CHR ''}'', TRBrace), (CHR ''['', TLBracket),
             (CHR '']'', TRBracket), (CHR '':'', TColon), (CHR '','', TComma)] c"

text \<open>A string, a number or one of the words \<open>true\<close>, \<open>false\<close>, \<open>null\<close> at the head of the text.\<close>

definition scan_token :: "string \<Rightarrow> (token \<times> string) option" where
  "scan_token s =
     (case s of
        [] \<Rightarrow> None
      | c # cs \<Rightarrow>
          if c = CHR 0x22 then map_option (\<lambda>(v, rest). (TString v, rest)) (scan_string cs)
          else if c = CHR ''-'' \<or> is_digit c
          then map_option (\<lambda>(n, rest). (TNumber n, rest)) (scan_number s)
          else if c = CHR ''t'' then map_option (Pair TTrue) (strip_prefix ''rue'' cs)
          else if c = CHR ''f'' then map_option (Pair TFalse) (strip_prefix ''alse'' cs)
          else if c = CHR ''n'' then map_option (Pair TNull) (strip_prefix ''ull'' cs)
          else None)"

lemma scan_token_shorter: "scan_token s = Some (t, rest) \<Longrightarrow> length rest < length s"
proof (cases s)
  case Nil
  assume "scan_token s = Some (t, rest)"
  with Nil show ?thesis by (simp add: scan_token_def)
next
  case (Cons c cs)
  assume a: "scan_token s = Some (t, rest)"
  consider (str) "\<exists>v. scan_string cs = Some (v, rest)"
    | (num) "\<exists>n. scan_number s = Some (n, rest)"
    | (word) "\<exists>p. strip_prefix p cs = Some rest"
    using a unfolding scan_token_def Cons
    by (auto split: if_splits)
  then show ?thesis
  proof cases
    case str
    then show ?thesis using scan_string_shorter Cons by fastforce
  next
    case num
    then show ?thesis using scan_number_shorter by blast
  next
    case word
    then show ?thesis using strip_prefix_shorter Cons by fastforce
  qed
qed

function tokenize :: "string \<Rightarrow> token list option" where
  "tokenize [] = Some []"
| "tokenize (c # cs) =
     (if json_space c then tokenize cs
      else
        (case punctuation c of
           Some t \<Rightarrow> map_option ((#) t) (tokenize cs)
         | None \<Rightarrow>
             (case scan_token (c # cs) of
                None \<Rightarrow> None
              | Some (t, rest) \<Rightarrow> map_option ((#) t) (tokenize rest))))"
  by pat_completeness auto
termination
  by (relation "measure length") (auto dest: scan_token_shorter)

text \<open>
  The parser. A frame is an array or an object under construction; an object that has read a
  key keeps it until the value comes. A member with a key the object already has replaces
  the value of that key.
\<close>

datatype frame =
    InArray "jsval list"
  | InObject "(string \<times> jsval) list" string

datatype expect =
    Value           \<comment> \<open>at the start, after a comma in an array, after a colon\<close>
  | ValueOrClose    \<comment> \<open>after \<open>[\<close>\<close>
  | KeyOrClose      \<comment> \<open>after \<open>{\<close>\<close>
  | Key             \<comment> \<open>after a comma in an object\<close>
  | Colon           \<comment> \<open>after a key\<close>
  | CommaOrClose    \<comment> \<open>after an element or a member\<close>
  | Finished jsval  \<comment> \<open>the text is one complete value\<close>

fun put_value :: "jsval \<Rightarrow> frame list \<Rightarrow> (expect \<times> frame list) option" where
  "put_value v [] = Some (Finished v, [])"
| "put_value v (InArray acc # st) = Some (CommaOrClose, InArray (acc @ [v]) # st)"
| "put_value v (InObject ms k # st) = Some (CommaOrClose, InObject (obj_set ms k v) k # st)"

definition start_value :: "token \<Rightarrow> frame list \<Rightarrow> (expect \<times> frame list) option" where
  "start_value tok st =
     (case tok of
        TString s \<Rightarrow> put_value (JStr s) st
      | TNumber n \<Rightarrow> put_value (JNum n) st
      | TTrue \<Rightarrow> put_value (JBool True) st
      | TFalse \<Rightarrow> put_value (JBool False) st
      | TNull \<Rightarrow> put_value JNull st
      | TLBracket \<Rightarrow> Some (ValueOrClose, InArray [] # st)
      | TLBrace \<Rightarrow> Some (KeyOrClose, InObject [] [] # st)
      | _ \<Rightarrow> None)"

definition close_array :: "frame list \<Rightarrow> (expect \<times> frame list) option" where
  "close_array st = (case st of InArray acc # st' \<Rightarrow> put_value (JArr acc) st' | _ \<Rightarrow> None)"

definition close_object :: "frame list \<Rightarrow> (expect \<times> frame list) option" where
  "close_object st = (case st of InObject ms k # st' \<Rightarrow> put_value (JObj ms) st' | _ \<Rightarrow> None)"

definition read_key :: "token \<Rightarrow> frame list \<Rightarrow> (expect \<times> frame list) option" where
  "read_key tok st =
     (case (tok, st) of
        (TString k, InObject ms k' # st') \<Rightarrow> Some (Colon, InObject ms k # st')
      | _ \<Rightarrow> None)"

fun parse_step :: "expect \<Rightarrow> frame list \<Rightarrow> token \<Rightarrow> (expect \<times> frame list) option" where
  "parse_step Value st tok = start_value tok st"
| "parse_step ValueOrClose st tok = (if tok = TRBracket then close_array st else start_value tok st)"
| "parse_step KeyOrClose st tok = (if tok = TRBrace then close_object st else read_key tok st)"
| "parse_step Key st tok = read_key tok st"
| "parse_step Colon st tok = (if tok = TColon then Some (Value, st) else None)"
| "parse_step CommaOrClose st tok =
     (if tok = TComma then
        (case st of
           InArray acc # st' \<Rightarrow> Some (Value, st)
         | InObject ms k # st' \<Rightarrow> Some (Key, st)
         | [] \<Rightarrow> None)
      else if tok = TRBracket then close_array st
      else if tok = TRBrace then close_object st
      else None)"
| "parse_step (Finished v) st tok = None"

fun parse_tokens :: "expect \<Rightarrow> frame list \<Rightarrow> token list \<Rightarrow> jsval option" where
  "parse_tokens e st [] = (case e of Finished v \<Rightarrow> Some v | _ \<Rightarrow> None)"
| "parse_tokens e st (tok # toks) =
     (case parse_step e st tok of
        None \<Rightarrow> None
      | Some (e', st') \<Rightarrow> parse_tokens e' st' toks)"

definition json_parse :: "string \<Rightarrow> jsval option" where
  "json_parse s =
     (case tokenize s of None \<Rightarrow> None | Some toks \<Rightarrow> parse_tokens Value [] toks)"

section \<open>The tolerant parser (map.js)\<close>

text \<open>\<open>s.replace(/^\[/, '')\<close> and \<open>s.replace(/\]$/, '')\<close>.\<close>

definition strip_open_bracket :: "string \<Rightarrow> string" where
  "strip_open_bracket s = (case s of c # r \<Rightarrow> if c = CHR ''['' then r else s | [] \<Rightarrow> [])"

definition strip_close_bracket :: "string \<Rightarrow> string" where
  "strip_close_bracket s = (if s \<noteq> [] \<and> last s = CHR '']'' then butlast s else s)"

text \<open>
  \<open>s.split(/p/)\<close> for a pattern without groups that takes at least one character: the
  pieces between the matches, which are taken from left to right.
\<close>

fun rx_split :: "atom list \<Rightarrow> string \<Rightarrow> string \<Rightarrow> string list" where
  "rx_split as piece [] = [rev piece]"
| "rx_split as piece (x # xs) =
     (case rx_match as (\<lambda>r. True) (x # xs) of
        None \<Rightarrow> rx_split as (x # piece) xs
      | Some segs \<Rightarrow> rev piece # rx_split as [] (drop (length (concat segs) - 1) xs))"

text \<open>
  The chunks of the text:
  \<^verbatim>\<open>cleanedString.split(/}\s*,\s*{/).map(chunk => {
    let normalized = chunk.trim();
    if (!normalized.startsWith('{')) { normalized = '{' + normalized; }
    if (!normalized.endsWith('}')) { normalized = normalized + '}'; }
    return normalized;
})\<close>
\<close>

definition wrap_chunk :: "string \<Rightarrow> string" where
  "wrap_chunk chunk =
     (let n1 = js_trim chunk;
          n2 = (if n1 \<noteq> [] \<and> hd n1 = CHR ''{'' then n1 else CHR ''{'' # n1)
      in if last n2 = CHR ''}'' then n2 else n2 @ ''}'')"

text \<open>\<open>s.replace(/"/g, '\\"')\<close> and \<open>s.replace(/\\/g, '\\\\')\<close>.\<close>

definition escape_quotes :: "string \<Rightarrow> string" where
  "escape_quotes s =
     rx_replace [One (\<lambda>c. c = CHR 0x22)] (\<lambda>r. True) (\<lambda>segs. [CHR 0x5C, CHR 0x22]) s"

definition escape_backslashes :: "string \<Rightarrow> string" where
  "escape_backslashes s =
     rx_replace [One (\<lambda>c. c = CHR 0x5C)] (\<lambda>r. True) (\<lambda>segs. [CHR 0x5C, CHR 0x5C]) s"

text \<open>
  The keys:
  \<^verbatim>\<open>escapedBackslashes.replace(/([{,]\s*)([^,{:]+?)(\s*:\s*)/g, (match, prefix, key, separator) => {
    const safeKey = key.trim().replace(/"/g, '\\"');
    return `${prefix}"${safeKey}"${separator}`;
})\<close>
\<close>

definition key_pattern :: "atom list" where
  "key_pattern =
     [One (\<lambda>c. c = CHR ''{'' \<or> c = CHR '',''), Star is_space,
      PlusLazy (\<lambda>c. c \<noteq> CHR '','' \<and> c \<noteq> CHR ''{'' \<and> c \<noteq> CHR '':''),
      Star is_space, One (\<lambda>c. c = CHR '':''), Star is_space]"

fun quote_key :: "string list \<Rightarrow> string" where
  "quote_key [p1, p2, key, s1, s2, s3] =
     (p1 @ p2) @ [CHR 0x22] @ escape_quotes (js_trim key) @ [CHR 0x22] @ (s1 @ s2 @ s3)"
| "quote_key segs = concat segs"

definition quote_keys :: "string \<Rightarrow> string" where
  "quote_keys chunk = rx_replace key_pattern (\<lambda>r. True) quote_key chunk"

text \<open>\<open>/^-?\d+(?:[.,]\d+)?$/.test(s)\<close>\<close>

definition numeric_literal :: "string \<Rightarrow> bool" where
  "numeric_literal s =
     (let u = (if s \<noteq> [] \<and> hd s = CHR ''-'' then tl s else s);
          r = dropWhile is_digit u
      in takeWhile is_digit u \<noteq> [] \<and>
         (r = [] \<or>
          ((hd r = CHR ''.'' \<or> hd r = CHR '','') \<and> tl r \<noteq> [] \<and> list_all is_digit (tl r))))"

text \<open>
  The values:
  \<^verbatim>\<open>quotedKeys.replace(/:\s*([^,"}{\[\]]+)(?=\s*[},])/g, (match, value) => {
    const trimmedValue = value.trim();
    if (/^-?\d+(?:[.,]\d+)?$/.test(trimmedValue)) {
        return `: ${trimmedValue.replace(',', '.')}`;
    }
    const safeValue = trimmedValue.replace(/"/g, '\\"');
    return `: "${safeValue}"`;
})\<close>
\<close>

definition value_pattern :: "atom list" where
  "value_pattern =
     [One (\<lambda>c. c = CHR '':''), Star is_space,
      Plus (\<lambda>c. c \<notin> set [CHR '','', CHR 0x22, CHR ''}'', CHR ''{'', CHR ''['', CHR '']''])]"

definition value_lookahead :: "string \<Rightarrow> bool" where
  "value_lookahead r \<longleftrightarrow>
     rx_match [Star is_space, One (\<lambda>c. c = CHR ''}'' \<or> c = CHR '','')] (\<lambda>r'. True) r \<noteq> None"

fun quote_value :: "string list \<Rightarrow> string" where
  "quote_value [colon, spaces, val] =
     (let trimmedValue = js_trim val
      in if numeric_literal trimmedValue
         then '': '' @ replace_first CHR '','' ''.'' trimmedValue
         else '': '' @ [CHR 0x22] @ escape_quotes trimmedValue @ [CHR 0x22])"
| "quote_value segs = concat segs"

definition quote_values :: "string \<Rightarrow> string" where
  "quote_values chunk = rx_replace value_pattern value_lookahead quote_value chunk"

text \<open>
  \<^verbatim>\<open>function buildJsonFromObjectStrings(rawString) {
    const cleanedString = rawString.trim().replace(/^\[/, '').replace(/\]$/, '');
    if (!cleanedString) { return '[]'; }
    const objectStrings = cleanedString.split(/}\s*,\s*{/).map(...);
    const jsonReadyObjects = objectStrings.map(chunk => {
        const escapedBackslashes = chunk.replace(/\\/g, '\\\\');
        const quotedKeys = ...; const quotedValues = ...;
        return quotedValues;
    });
    return `[${jsonReadyObjects.join(',')}]`;
}\<close>
\<close>

definition chunk_separator :: "atom list" where
  "chunk_separator =
     [One (\<lambda>c. c = CHR ''}''), Star is_space, One (\<lambda>c. c = CHR '',''), Star is_space,
      One (\<lambda>c. c = CHR ''{'')]"

definition buildJsonFromObjectStrings :: "string \<Rightarrow> string" where
  "buildJsonFromObjectStrings rawString =
     (let cleanedString = strip_close_bracket (strip_open_bracket (js_trim rawString))
      in if cleanedString = [] then ''[]''
         else
           let objectStrings = map wrap_chunk (rx_split chunk_separator [] cleanedString);
               jsonReadyObjects =
                 map (\<lambda>chunk. quote_values (quote_keys (escape_backslashes chunk))) objectStrings
           in ''['' @ intercalate '','' jsonReadyObjects @ '']'')"

text \<open>
  \<^verbatim>\<open>function parseObjectsStringManually(dataString) {
    const jsonString = buildJsonFromObjectStrings(dataString);
    const parsed = JSON.parse(jsonString);
    if (!Array.isArray(parsed)) { throw new Error(...); }
    return parsed;
}\<close>
\<close>

definition parseObjectsStringManually :: "string \<Rightarrow> error + jsval" where
  "parseObjectsStringManually dataString =
     (case json_parse (buildJsonFromObjectStrings dataString) of
        None \<Rightarrow> Inl SyntaxError
      | Some parsed \<Rightarrow> (case parsed of JArr xs \<Rightarrow> Inr parsed | _ \<Rightarrow> Inl ExpectedArray))"

text \<open>
  \<^verbatim>\<open>function parseDataString(dataString) {
    if (!dataString || typeof dataString !== 'string') { return null; }
    const trimmedString = dataString.trim();
    if (!trimmedString) { return null; }
    try {
        const parsed = JSON.parse(trimmedString);
        if (!Array.isArray(parsed)) { throw new Error(...); }
        return parsed;
    } catch (jsonError) {
        return parseObjectsStringManually(trimmedString);
    }
}\<close>
  \<open>parseDataString_with\<close> is the function with the call in the \<open>catch\<close> block as the
  parameter \<open>repair\<close>.
\<close>

definition parseDataString_with :: "(string \<Rightarrow> error + jsval) \<Rightarrow> jsval \<Rightarrow> error + jsval" where
  "parseDataString_with repair dataString =
     (case dataString of
        JStr s \<Rightarrow>
          if s = [] then Inr JNull
          else
            let trimmedString = js_trim s
            in if trimmedString = [] then Inr JNull
               else
                 (case json_parse trimmedString of
                    Some (JArr xs) \<Rightarrow> Inr (JArr xs)
                  | _ \<Rightarrow> repair trimmedString)
      | _ \<Rightarrow> Inr JNull)"

definition parseDataString :: "jsval \<Rightarrow> error + jsval" where
  "parseDataString dataString = parseDataString_with parseObjectsStringManually dataString"

section \<open>The consistency checker (scripts/validateAreas.js)\<close>

text \<open>
  The command-line tool reads two files and prints lines. The file system is a function
  from a path to the text of the file, \<open>None\<close> where the read fails (\<open>path.resolve\<close> is
  left out: a file is named by the path given). A run ends with an exit code and the
  lines printed.
\<close>

datatype parse_cause = BadSyntax | NotJsonArray

datatype cli_error =
    ExpectedValue string            \<comment> \<open>\<open>Expected a value after --areas/-a\<close>, or \<open>--data/-d\<close>\<close>
  | UnknownArgument string          \<comment> \<open>\<open>Unknown argument: ...\<close>\<close>
  | DataPathRequired                \<comment> \<open>\<open>Path to data file is required. Pass it via --data.\<close>\<close>
  | UnableToRead string string      \<comment> \<open>\<open>Unable to read <description> at <path>: ...\<close>\<close>
  | IsEmpty string                  \<comment> \<open>\<open><description> is empty.\<close>\<close>
  | FailedToParse string parse_cause  \<comment> \<open>\<open>Failed to parse <description>: ...\<close>\<close>
  | AreaNotObject nat               \<comment> \<open>\<open>Area #<n> must be an object.\<close>\<close>
  | AreaMissingField nat string     \<comment> \<open>\<open>Area #<n> is missing required field "<field>".\<close>\<close>
  | DataNotObject nat               \<comment> \<open>\<open>Data entry #<n> must be an object.\<close>\<close>

datatype out_line =
    Usage                           \<comment> \<open>\<open>console.log\<close> of the usage text\<close>
  | Log string                      \<comment> \<open>\<open>console.log\<close>\<close>
  | Warn string                     \<comment> \<open>\<open>console.warn\<close>\<close>
  | Err cli_error                   \<comment> \<open>\<open>console.error(error.message)\<close>\<close>

record run =
  exit_code :: nat
  printed :: "out_line list"

record options =
  opt_areas :: string
  opt_data :: "string option"

datatype args_result = ArgsFailed cli_error | ArgsHelp | ArgsOk options

text \<open>
  The loop of \<open>parseArgs\<close>: \<open>--areas\<close>/\<open>-a\<close> and \<open>--data\<close>/\<open>-d\<close> take the next argument,
  which must be there and not empty; \<open>--help\<close>/\<open>-h\<close> prints the usage and exits with 0;
  anything else is refused.
\<close>

fun parseArgs_loop :: "options \<Rightarrow> string list \<Rightarrow> args_result" where
  "parseArgs_loop opts [] = ArgsOk opts"
| "parseArgs_loop opts (arg # rest) =
     (if arg = ''--areas'' \<or> arg = ''-a'' then
        (case rest of
           [] \<Rightarrow> ArgsFailed (ExpectedValue ''--areas/-a'')
         | v # rest' \<Rightarrow>
             if v = [] then ArgsFailed (ExpectedValue ''--areas/-a'')
             else parseArgs_loop (opts\<lparr>opt_areas := v\<rparr>) rest')
      else if arg = ''--data'' \<or> arg = ''-d'' then
        (case rest of
           [] \<Rightarrow> ArgsFailed (ExpectedValue ''--data/-d'')
         | v # rest' \<Rightarrow>
             if v = [] then ArgsFailed (ExpectedValue ''--data/-d'')
             else parseArgs_loop (opts\<lparr>opt_data := Some v\<rparr>) rest')
      else if arg = ''--help'' \<or> arg = ''-h'' then ArgsHelp
      else ArgsFailed (UnknownArgument arg))"

definition parseArgs :: "string list \<Rightarrow> args_result" where
  "parseArgs argv =
     (case parseArgs_loop \<lparr>opt_areas = ''interactiveAreas.json'', opt_data = None\<rparr> argv of
        ArgsOk opts \<Rightarrow> (if opt_data opts = None then ArgsFailed DataPathRequired else ArgsOk opts)
      | r \<Rightarrow> r)"

definition readFile :: "(string \<Rightarrow> string option) \<Rightarrow> string \<Rightarrow> string \<Rightarrow> cli_error + string" where
  "readFile fs filePath description =
     (case fs filePath of
        Some content \<Rightarrow> Inr content
      | None \<Rightarrow> Inl (UnableToRead description filePath))"

text \<open>
  \<^verbatim>\<open>function parseJsonArray(rawContent, description) {
  const trimmed = rawContent.trim();
  if (!trimmed) { throw new Error(`${description} is empty.`); }
  try {
    const parsed = JSON.parse(trimmed);
    if (!Array.isArray(parsed)) { throw new Error(`${description} must be a JSON array.`); }
    return parsed;
  } catch (error) { throw new Error(`Failed to parse ${description}: ${error.message}`); }
}\<close>
\<close>

definition parseJsonArray :: "string \<Rightarrow> string \<Rightarrow> cli_error + jsval list" where
  "parseJsonArray rawContent description =
     (let trimmed = js_trim rawContent
      in if trimmed = [] then Inl (IsEmpty description)
         else
           (case json_parse trimmed of
              None \<Rightarrow> Inl (FailedToParse description BadSyntax)
            | Some parsed \<Rightarrow>
                (case parsed of
                   JArr xs \<Rightarrow> Inr xs
                 | _ \<Rightarrow> Inl (FailedToParse description NotJsonArray))))"

text \<open>
  A property of an area or a data entry. Both are objects or arrays where they are read
  (the tool has checked that), so the read does not throw.
\<close>

definition read_prop :: "jsval \<Rightarrow> string \<Rightarrow> jsval" where
  "read_prop v k = (case get_prop v k of Inr x \<Rightarrow> x | Inl e \<Rightarrow> JUndefined)"

definition REQUIRED_AREA_FIELDS :: "string list" where
  "REQUIRED_AREA_FIELDS = [''name'', ''x'', ''y'', ''width'', ''height'', ''matchField'']"

text \<open>
  \<^verbatim>\<open>function validateAreasShape(areas) {
  return areas.map((area, index) => {
    if (!area || typeof area !== 'object') { throw new Error(`Area #${index + 1} must be an object.`); }
    REQUIRED_AREA_FIELDS.forEach(field => {
      if (area[field] === undefined) {
        throw new Error(`Area #${index + 1} is missing required field "${field}".`);
      }
    });
    return area;
  });
}\<close>
\<close>

fun validateAreasShape_from :: "nat \<Rightarrow> jsval list \<Rightarrow> cli_error + jsval list" where
  "validateAreasShape_from index [] = Inr []"
| "validateAreasShape_from index (a # rest) =
     (if \<not> to_boolean a \<or> typeof a \<noteq> ''object'' then Inl (AreaNotObject (index + 1))
      else
        (case find (\<lambda>field. read_prop a field = JUndefined) REQUIRED_AREA_FIELDS of
           Some field \<Rightarrow> Inl (AreaMissingField (index + 1) field)
         | None \<Rightarrow>
             (case validateAreasShape_from (index + 1) rest of
                Inl e \<Rightarrow> Inl e
              | Inr rest' \<Rightarrow> Inr (a # rest'))))"

definition validateAreasShape :: "jsval list \<Rightarrow> cli_error + jsval list" where
  "validateAreasShape as = validateAreasShape_from 0 as"

text \<open>
  \<^verbatim>\<open>function ensureDataObjects(dataArray) {
  return dataArray.map((item, index) => {
    if (!item || typeof item !== 'object') { throw new Error(`Data entry #${index + 1} must be an object.`); }
    return item;
  });
}\<close>
\<close>

fun ensureDataObjects_from :: "nat \<Rightarrow> jsval list \<Rightarrow> cli_error + jsval list" where
  "ensureDataObjects_from index [] = Inr []"
| "ensureDataObjects_from index (item # rest) =
     (if \<not> to_boolean item \<or> typeof item \<noteq> ''object'' then Inl (DataNotObject (index + 1))
      else
        (case ensureDataObjects_from (index + 1) rest of
           Inl e \<Rightarrow> Inl e
         | Inr rest' \<Rightarrow> Inr (item # rest')))"

definition ensureDataObjects :: "jsval list \<Rightarrow> cli_error + jsval list" where
  "ensureDataObjects dataArray = ensureDataObjects_from 0 dataArray"

text \<open>
  \<^verbatim>\<open>function normalize(value) {
  if (value === undefined || value === null) { return ''; }
  return String(value).trim().toLowerCase();
}\<close>
\<close>

definition normalize :: "(jsnum \<Rightarrow> string) \<Rightarrow> jsval \<Rightarrow> string" where
  "normalize nts v =
     (if v = JUndefined \<or> v = JNull then [] else toLowerCase (js_trim (to_string nts v)))"

text \<open>A warning: the label of the area (its name, or \<open>#<n>\<close>) and the message.\<close>

datatype warning = Warning jsval string

text \<open>
  The body of \<open>areas.forEach((area, index) => ...)\<close> in \<open>main\<close>:
  \<^verbatim>\<open>const rawField = area.matchField;
const rawValue = area.matchValue !== undefined ? area.matchValue : area.name;
const matchField = typeof rawField === 'string' ? rawField.trim() : '';
const matchValue = typeof rawValue === 'string' ? rawValue.trim() : '';
if (!matchField) { warnings.push({ area: area.name || `#${index + 1}`,
    message: 'matchField is missing or empty' }); return; }
if (!matchValue) { warnings.push({ area: area.name || `#${index + 1}`,
    message: 'matchValue is missing or empty' }); return; }
const normalizedValue = normalize(matchValue);
const hasMatch = data.some(item => {
  const candidate = item[matchField];
  if (candidate === undefined || candidate === null) { return false; }
  return normalize(candidate) === normalizedValue;
});
if (!hasMatch) { warnings.push({ area: area.name || `#${index + 1}`,
    message: `Value "${matchValue}" not found in field "${matchField}"` }); }\<close>
\<close>

definition trimmed_string :: "jsval \<Rightarrow> string" where
  "trimmed_string v = (case v of JStr s \<Rightarrow> js_trim s | _ \<Rightarrow> [])"

definition area_label :: "jsval \<Rightarrow> nat \<Rightarrow> jsval" where
  "area_label a index = js_or (read_prop a ''name'') (JStr (''#'' @ nat_to_string (index + 1)))"

definition not_found_message :: "string \<Rightarrow> string \<Rightarrow> string" where
  \<open>not_found_message matchValue matchField =
     ''Value "'' @ matchValue @ ''" not found in field "'' @ matchField @ ''"''\<close>

definition has_match :: "(jsnum \<Rightarrow> string) \<Rightarrow> jsval list \<Rightarrow> string \<Rightarrow> string \<Rightarrow> bool" where
  "has_match nts dataArray matchField normalizedValue =
     list_ex (\<lambda>item.
        let candidate = read_prop item matchField
        in if candidate = JUndefined \<or> candidate = JNull then False
           else normalize nts candidate = normalizedValue) dataArray"

definition area_warning :: "(jsnum \<Rightarrow> string) \<Rightarrow> jsval list \<Rightarrow> jsval \<Rightarrow> nat \<Rightarrow> warning option" where
  "area_warning nts dataArray a index =
     (let rawField = read_prop a ''matchField'';
          rawValue = (if read_prop a ''matchValue'' \<noteq> JUndefined then read_prop a ''matchValue''
                      else read_prop a ''name'');
          matchField = trimmed_string rawField;
          matchValue = trimmed_string rawValue
      in if matchField = [] then Some (Warning (area_label a index) ''matchField is missing or empty'')
         else if matchValue = []
         then Some (Warning (area_label a index) ''matchValue is missing or empty'')
         else if \<not> has_match nts dataArray matchField (normalize nts (JStr matchValue))
         then Some (Warning (area_label a index) (not_found_message matchValue matchField))
         else None)"

fun collect_warnings :: "(jsnum \<Rightarrow> string) \<Rightarrow> jsval list \<Rightarrow> nat \<Rightarrow> jsval list \<Rightarrow> warning list" where
  "collect_warnings nts dataArray index [] = []"
| "collect_warnings nts dataArray index (a # rest) =
     (case area_warning nts dataArray a index of Some w \<Rightarrow> [w] | None \<Rightarrow> []) @
     collect_warnings nts dataArray (index + 1) rest"

text \<open>
  \<^verbatim>\<open>if (warnings.length === 0) {
  console.log('All matchField/matchValue combinations have matches in the provided data.');
} else {
  console.warn('Some interactive areas do not have corresponding records in the data:');
  warnings.forEach(warning => { console.warn(` - ${warning.area}: ${warning.message}`); });
}\<close>
\<close>

definition success_line :: string where
  "success_line = ''All matchField/matchValue combinations have matches in the provided data.''"

definition warnings_header :: string where
  "warnings_header = ''Some interactive areas do not have corresponding records in the data:''"

fun warning_line :: "(jsnum \<Rightarrow> string) \<Rightarrow> warning \<Rightarrow> string" where
  "warning_line nts (Warning label message) = '' - '' @ to_string nts label @ '': '' @ message"

definition report :: "(jsnum \<Rightarrow> string) \<Rightarrow> warning list \<Rightarrow> out_line list" where
  "report nts warnings =
     (if warnings = [] then [Log success_line]
      else Warn warnings_header # map (\<lambda>w. Warn (warning_line nts w)) warnings)"

text \<open>
  What \<open>main\<close> loads before it compares: the options, the two texts, the areas and the
  data. The first failure ends it.
\<close>

datatype loaded = Failed cli_error | Help | Loaded "jsval list" "jsval list"

definition load :: "(string \<Rightarrow> string option) \<Rightarrow> string list \<Rightarrow> loaded" where
  "load fs argv =
     (case parseArgs argv of
        ArgsFailed e \<Rightarrow> Failed e
      | ArgsHelp \<Rightarrow> Help
      | ArgsOk opts \<Rightarrow>
          (case readFile fs (opt_areas opts) ''interactive areas file'' of
             Inl e \<Rightarrow> Failed e
           | Inr areasContent \<Rightarrow>
               (case readFile fs (case opt_data opts of Some p \<Rightarrow> p | None \<Rightarrow> [])
                       ''data file'' of
                  Inl e \<Rightarrow> Failed e
                | Inr dataContent \<Rightarrow>
                    (case parseJsonArray areasContent ''interactive areas'' of
                       Inl e \<Rightarrow> Failed e
                     | Inr parsedAreas \<Rightarrow>
                         (case validateAreasShape parsedAreas of
                            Inl e \<Rightarrow> Failed e
                          | Inr as \<Rightarrow>
                              (case parseJsonArray dataContent ''data array'' of
                                 Inl e \<Rightarrow> Failed e
                               | Inr parsedData \<Rightarrow>
                                   (case ensureDataObjects parsedData of
                                      Inl e \<Rightarrow> Failed e
                                    | Inr dataArray \<Rightarrow> Loaded as dataArray)))))))"

text \<open>
  \<open>main\<close>: a failure prints its message and exits with 1 (\<open>process.exit(1)\<close> in the
  \<open>catch\<close> block); the help exits with 0; otherwise the report is printed and the process
  ends with 0.
\<close>

definition main :: "(jsnum \<Rightarrow> string) \<Rightarrow> (string \<Rightarrow> string option) \<Rightarrow> string list \<Rightarrow> run" where
  "main nts fs argv =
     (case load fs argv of
        Failed e \<Rightarrow> \<lparr>exit_code = 1, printed = [Err e]\<rparr>
      | Help \<Rightarrow> \<lparr>exit_code = 0, printed = [Usage]\<rparr>
      | Loaded as dataArray \<Rightarrow>
          \<lparr>exit_code = 0, printed = report nts (collect_warnings nts dataArray 0 as)\<rparr>)"

section \<open>The example of the specification\<close>





definition example_area :: "string \<Rightarrow> jsval" where
  "example_area matchValue =
     JObj [(''name'', JStr ''Dock A''), (''x'', JNum (Fin 0)), (''y'', JNum (Fin 0)),
           (''width'', JNum (Fin 1)), (''height'', JNum (Fin 1)), (''matchField'', JStr ''berth''),
           (''matchValue'', JStr matchValue)]"

text \<open>A region that has every required field but \<open>matchField\<close>.\<close>

definition region_without_matchField :: "(string \<times> jsval) list" where
  "region_without_matchField =
     [(''name'', JStr ''Dock B''), (''x'', JNum (Fin 0)), (''y'', JNum (Fin 0)),
      (''width'', JNum (Fin 1)), (''height'', JNum (Fin 1))]"

section \<open>Properties of the matcher\<close>

subsection \<open>The pattern \<open>\s+\<close> replaced by one space\<close>

lemma rx_star_all: "rx_match [Star c] (\<lambda>r. True) s = Some [takeWhile c s]"
  by (induction s) auto

lemma rx_plus_all:
  "rx_match [Plus c] (\<lambda>r. True) (x # xs) = (if c x then Some [x # takeWhile c xs] else None)"
  by (simp add: rx_star_all)

lemma rx_replace_collapse:
  "rx_replace [Plus is_space] (\<lambda>r. True) (\<lambda>segs. '' '') s = collapse_spaces s"
proof (induction s rule: collapse_spaces.induct)
  case 1
  show ?case by simp
next
  case (2 c cs)
  show ?case
  proof (cases "is_space c")
    case True
    with 2 show ?thesis
      by (simp add: rx_plus_all dropWhile_eq_drop del: rx_match.simps)
  next
    case False
    with 2 show ?thesis by (simp add: rx_plus_all del: rx_match.simps)
  qed
qed

lemma normalize_is_spec: "normalizeStringValue nts v = spec_normalize nts v"
  by (simp add: normalizeStringValue_def spec_normalize_def rx_replace_collapse toLowerCase_def
      js_trim_def)

subsection \<open>Lowercasing keeps white space where it is\<close>

lemma lower_char_range:
  "lower_char c = c \<or> (c \<in> set upper_chars \<and> lower_char c \<in> set lower_chars)"
  by (auto simp: lower_char_def split: option.splits
           dest: map_of_SomeD set_zip_leftD set_zip_rightD)

lemma lower_not_upper: "c \<in> set lower_chars \<Longrightarrow> c \<notin> set upper_chars"
  unfolding upper_chars_def lower_chars_def by auto

lemma lower_char_idem: "lower_char (lower_char c) = lower_char c"
  using lower_char_range[of c] lower_char_range[of "lower_char c"]
        lower_not_upper[of "lower_char c"]
  by auto

lemma upper_not_space: "c \<in> set upper_chars \<Longrightarrow> \<not> is_space c"
  unfolding upper_chars_def is_space_def by auto

lemma lower_not_space: "c \<in> set lower_chars \<Longrightarrow> \<not> is_space c"
  unfolding lower_chars_def is_space_def by auto

lemma is_space_lower: "is_space (lower_char c) = is_space c"
  using lower_char_range[of c] upper_not_space[of c] lower_not_space[of "lower_char c"]
  by auto

lemma dropWhile_map_lower:
  "dropWhile is_space (map lower_char s) = map lower_char (dropWhile is_space s)"
  by (induction s) (auto simp: is_space_lower)

lemma js_trim_map_lower: "js_trim (map lower_char s) = map lower_char (js_trim s)"
  by (simp add: js_trim_def dropWhile_map_lower rev_map)

lemma collapse_map_lower:
  "collapse_spaces (map lower_char s) = map lower_char (collapse_spaces s)"
proof (induction s rule: collapse_spaces.induct)
  case 1
  show ?case by simp
next
  case (2 c cs)
  have sp: "lower_char (CHR '' '') = CHR '' ''"
    by (simp add: lower_char_def upper_chars_def lower_chars_def)
  show ?case
  proof (cases "is_space c")
    case True
    with 2 show ?thesis by (simp add: is_space_lower dropWhile_map_lower sp)
  next
    case False
    with 2 show ?thesis by (simp add: is_space_lower)
  qed
qed

lemma space_is_space: "is_space (CHR '' '')"
  by (simp add: is_space_def)

lemma dropWhile_id: "xs = [] \<or> \<not> P (hd xs) \<Longrightarrow> dropWhile P xs = xs"
  by (cases xs) auto

lemma dropWhile_collapse_id:
  "xs = [] \<or> \<not> is_space (hd xs) \<Longrightarrow> dropWhile is_space (collapse_spaces xs) = collapse_spaces xs"
  by (cases xs) auto

lemma dropWhile_start: "dropWhile P xs = [] \<or> \<not> P (hd (dropWhile P xs))"
  using hd_dropWhile[of P xs] by blast

lemma collapse_idem: "collapse_spaces (collapse_spaces s) = collapse_spaces s"
proof (induction s rule: collapse_spaces.induct)
  case 1
  show ?case by simp
next
  case (2 c cs)
  show ?case
  proof (cases "is_space c")
    case True
    have "dropWhile is_space (collapse_spaces (dropWhile is_space cs)) = collapse_spaces (dropWhile is_space cs)"
      by (rule dropWhile_collapse_id[OF dropWhile_start])
    with 2 True show ?thesis by (simp add: space_is_space)
  next
    case False
    with 2 show ?thesis by simp
  qed
qed

lemma last_dropWhile_same: "dropWhile P xs \<noteq> [] \<Longrightarrow> last (dropWhile P xs) = last xs"
  by (induction xs) (auto split: if_splits)

lemma trimmed_js_trim: "trimmed (js_trim s)"
proof -
  let ?a = "dropWhile is_space s"
  let ?b = "dropWhile is_space (rev ?a)"
  show ?thesis
  proof (cases "?b = []")
    case True
    then show ?thesis by (simp add: trimmed_def js_trim_def)
  next
    case False
    then have hb: "\<not> is_space (hd ?b)" by (rule hd_dropWhile)
    have ne: "?a \<noteq> []"
    proof
      assume "?a = []"
      with False show False by simp
    qed
    then have ha: "\<not> is_space (hd ?a)" by (rule hd_dropWhile)
    have "last ?b = last (rev ?a)" using False by (rule last_dropWhile_same)
    also have "\<dots> = hd ?a" using ne by (simp add: last_rev)
    finally have "hd (rev ?b) = hd ?a" using False by (simp add: hd_rev)
    with ha hb False show ?thesis
      by (simp add: trimmed_def js_trim_def last_rev)
  qed
qed

lemma js_trim_trimmed: "trimmed s \<Longrightarrow> js_trim s = s"
proof -
  assume t: "trimmed s"
  then have 1: "dropWhile is_space s = s"
    by (intro dropWhile_id) (auto simp: trimmed_def)
  from t have "rev s = [] \<or> \<not> is_space (hd (rev s))"
    by (auto simp: trimmed_def hd_rev)
  then have "dropWhile is_space (rev s) = rev s" by (rule dropWhile_id)
  with 1 show ?thesis by (simp add: js_trim_def)
qed

lemma last_dropWhile_keep:
  "xs \<noteq> [] \<Longrightarrow> \<not> P (last xs) \<Longrightarrow> dropWhile P xs \<noteq> [] \<and> last (dropWhile P xs) = last xs"
  by (induction xs) (auto split: if_splits)

lemma collapse_last:
  "s \<noteq> [] \<Longrightarrow> \<not> is_space (last s) \<Longrightarrow> collapse_spaces s \<noteq> [] \<and> last (collapse_spaces s) = last s"
proof (induction s rule: collapse_spaces.induct)
  case 1
  then show ?case by simp
next
  case (2 c cs)
  show ?case
  proof (cases "is_space c")
    case True
    with 2(3,4) have cs: "cs \<noteq> []" "\<not> is_space (last cs)" by (auto split: if_splits)
    then have d: "dropWhile is_space cs \<noteq> []" "last (dropWhile is_space cs) = last cs"
      using last_dropWhile_keep[of cs is_space] by auto
    with 2(1)[OF True] cs have "collapse_spaces (dropWhile is_space cs) \<noteq> [] \<and>
       last (collapse_spaces (dropWhile is_space cs)) = last cs" by simp
    with True cs show ?thesis by simp
  next
    case False
    show ?thesis
    proof (cases "cs = []")
      case True
      with False show ?thesis by simp
    next
      case ne: False
      with 2(2)[OF False] 2(3,4) False show ?thesis by simp
    qed
  qed
qed

lemma collapse_trimmed: "trimmed s \<Longrightarrow> trimmed (collapse_spaces s)"
proof (cases s)
  case Nil
  then show ?thesis by (simp add: trimmed_def)
next
  case (Cons c cs)
  assume "trimmed s"
  with Cons have h: "\<not> is_space c" "\<not> is_space (last s)" by (auto simp: trimmed_def)
  with collapse_last[of s] Cons have "collapse_spaces s \<noteq> []" "\<not> is_space (last (collapse_spaces s))"
    by auto
  moreover have "hd (collapse_spaces s) = c" using Cons h by simp
  ultimately show ?thesis using h by (simp add: trimmed_def)
qed

lemma trimmed_map_lower: "trimmed s \<Longrightarrow> trimmed (map lower_char s)"
  by (auto simp: trimmed_def is_space_lower hd_map last_map)

lemma spec_normalize_idem:
  "spec_normalize nts (JStr (spec_normalize nts v)) = spec_normalize nts v"
proof -
  define t where "t = collapse_spaces (js_trim (if v = JUndefined \<or> v = JNull then [] else to_string nts v))"
  have tr: "trimmed t" unfolding t_def by (rule collapse_trimmed[OF trimmed_js_trim])
  have "js_trim (map lower_char t) = map lower_char t"
    by (rule js_trim_trimmed[OF trimmed_map_lower[OF tr]])
  moreover have "collapse_spaces (map lower_char t) = map lower_char t"
    unfolding t_def by (simp add: collapse_map_lower collapse_idem)
  ultimately have "map lower_char (collapse_spaces (js_trim (map lower_char t))) = map lower_char t"
    by (simp add: lower_char_idem)
  then show ?thesis by (simp add: spec_normalize_def t_def Let_def)
qed

lemma normalize_is_spec_idem:
  "normalizeStringValue nts (JStr (normalizeStringValue nts v)) = normalizeStringValue nts v"
  by (simp only: normalize_is_spec spec_normalize_idem)

subsection \<open>The filter on a set of records\<close>

lemma filter_items_objects:
  "filter_items (item_matches nts f nv) (map JObj recs) =
     Inr (map JObj (filter (\<lambda>r. to_boolean (obj_get r f) \<and>
                                 values_match (normalizeStringValue nts (obj_get r f)) nv) recs))"
  by (induction recs) (auto simp: item_matches_def values_match_def Let_def)

lemma filterDataByObject_objects:
  "filterDataByObject nts (JArr (map JObj recs)) f target =
     Inr (map JObj (filter (\<lambda>r. to_boolean (obj_get r f) \<and>
            values_match (normalizeStringValue nts (obj_get r f))
                         (normalizeStringValue nts target)) recs))"
  by (simp add: filterDataByObject_def filter_items_objects)

lemmas eval_strings =
  js_trim_def is_space_def toLowerCase_def lower_char_def upper_chars_def lower_chars_def

lemma normalize_pier_a: "normalizeStringValue nts (JStr ''  Pier   A '') = ''pier a''"
  by (simp add: normalizeStringValue_def eval_strings)

lemma normalize_pier_a_plain: "normalizeStringValue nts (JStr ''pier a'') = ''pier a''"
  by (simp add: normalizeStringValue_def eval_strings)

lemma normalize_Pier_A: "normalizeStringValue nts (JStr ''Pier A'') = ''pier a''"
  by (simp add: normalizeStringValue_def eval_strings)

lemma normalize_extension:
  "normalizeStringValue nts (JStr ''Pier A Extension'') = ''pier a extension''"
  by (simp add: normalizeStringValue_def eval_strings)

lemma normalize_empty: "normalizeStringValue nts (JStr []) = []"
  by (simp add: normalizeStringValue_def eval_strings)

section \<open>Claims about the matcher\<close>

text \<open>
  C1 (as amended). The normalization of the matcher is the one the specification words:
  a value is converted to text (\<open>undefined\<close> and \<open>null\<close> to the empty text), trimmed,
  every run of white space in it is collapsed to one space, and it is lowercased. For
  every set of records, field name and target value, the result holds exactly the records
  whose value at the field is truthy and whose normalized value equals the normalized
  target, contains it or is contained in it, in the order of the input. The two forms
  of "Pier A" normalize to the same text, and a record with the value
  "Pier A Extension" matches the target "Pier A".
\<close>

theorem matcher_normalizes_and_selects:
  "normalizeStringValue nts v = spec_normalize nts v \<and>
   filterDataByObject nts (JArr (map JObj recs)) f target =
     Inr (map JObj (filter (\<lambda>r. to_boolean (obj_get r f) \<and>
            values_match (spec_normalize nts (obj_get r f)) (spec_normalize nts target)) recs)) \<and>
   normalizeStringValue nts (JStr ''  Pier   A '') = normalizeStringValue nts (JStr ''pier a'') \<and>
   filterDataByObject nts (JArr [JObj [(''berth'', JStr ''Pier A Extension'')]]) ''berth''
       (JStr ''Pier A'') = Inr [JObj [(''berth'', JStr ''Pier A Extension'')]]"
proof (intro conjI)
  show "normalizeStringValue nts v = spec_normalize nts v"
    by (rule normalize_is_spec)
  show "filterDataByObject nts (JArr (map JObj recs)) f target =
     Inr (map JObj (filter (\<lambda>r. to_boolean (obj_get r f) \<and>
            values_match (spec_normalize nts (obj_get r f)) (spec_normalize nts target)) recs))"
    by (simp only: filterDataByObject_objects normalize_is_spec)
  show "normalizeStringValue nts (JStr ''  Pier   A '') = normalizeStringValue nts (JStr ''pier a'')"
    by (simp only: normalize_pier_a normalize_pier_a_plain)
  have "filterDataByObject nts (JArr (map JObj [[(''berth'', JStr ''Pier A Extension'')]])) ''berth''
       (JStr ''Pier A'') = Inr [JObj [(''berth'', JStr ''Pier A Extension'')]]"
    unfolding filterDataByObject_objects
    by (simp add: obj_get_def normalize_extension normalize_Pier_A values_match_def sublist_code)
  then show "filterDataByObject nts (JArr [JObj [(''berth'', JStr ''Pier A Extension'')]]) ''berth''
       (JStr ''Pier A'') = Inr [JObj [(''berth'', JStr ''Pier A Extension'')]]"
    by simp
qed

text \<open>
  C1 as it is written fails: it makes a record match whenever the normalized values are
  equal or one contains the other. A record whose value at the field is the empty string
  has the empty normalized value, which the normalized target contains, and a record
  whose value is the number 0 has the same normalized value as the target 0; neither
  record is in the result.
\<close>

theorem matcher_iff_counterexample:
  "\<forall>nts.
     values_match (normalizeStringValue nts (obj_get [(''berth'', JStr [])] ''berth''))
                  (normalizeStringValue nts (JStr ''Pier A'')) \<and>
     filterDataByObject nts (JArr [JObj [(''berth'', JStr [])]]) ''berth'' (JStr ''Pier A'')
       = Inr [] \<and>
     values_match (normalizeStringValue nts (obj_get [(''berth'', JNum (Fin 0))] ''berth''))
                  (normalizeStringValue nts (JNum (Fin 0))) \<and>
     filterDataByObject nts (JArr [JObj [(''berth'', JNum (Fin 0))]]) ''berth'' (JNum (Fin 0))
       = Inr []"
proof (intro allI conjI)
  fix nts
  show "values_match (normalizeStringValue nts (obj_get [(''berth'', JStr [])] ''berth''))
                  (normalizeStringValue nts (JStr ''Pier A''))"
    by (simp add: obj_get_def normalize_empty values_match_def)
  show "filterDataByObject nts (JArr [JObj [(''berth'', JStr [])]]) ''berth'' (JStr ''Pier A'')
       = Inr []"
    using filterDataByObject_objects[of nts "[[(''berth'', JStr [])]]" "''berth''" "JStr ''Pier A''"]
    by (simp add: obj_get_def)
  show "values_match (normalizeStringValue nts (obj_get [(''berth'', JNum (Fin 0))] ''berth''))
                  (normalizeStringValue nts (JNum (Fin 0)))"
    by (simp add: obj_get_def values_match_def)
  show "filterDataByObject nts (JArr [JObj [(''berth'', JNum (Fin 0))]]) ''berth'' (JNum (Fin 0))
       = Inr []"
    using filterDataByObject_objects[of nts "[[(''berth'', JNum (Fin 0))]]" "''berth''" "JNum (Fin 0)"]
    by (simp add: obj_get_def)
qed



text \<open>
  C10. The normalization is idempotent, so the matcher selects the same records for a
  target value and for its normalized form; the popup, which normalizes the match value
  before it calls the matcher, shows the records the matcher selects for the match value
  itself.
\<close>

theorem normalization_idempotent:
  "normalizeStringValue nts (JStr (normalizeStringValue nts v)) = normalizeStringValue nts v \<and>
   filterDataByObject nts dataArray f (JStr (normalizeStringValue nts v)) =
     filterDataByObject nts dataArray f v \<and>
   showPopup_filteredData nts defaultField dataArray areaConfig =
     filterDataByObject nts dataArray
       (to_string nts (js_or (obj_get areaConfig ''matchField'') (JStr defaultField)))
       (js_or (obj_get areaConfig ''matchValue'') (obj_get areaConfig ''name''))"
  by (simp add: filterDataByObject_def showPopup_filteredData_def normalize_is_spec_idem
           split: jsval.splits)

section \<open>Properties of the bounds validation\<close>

lemma numeric_value_obj: "numeric_value nts (JObj ps) f = to_number nts (obj_get ps f)"
  by (simp add: numeric_value_def)

lemma is_finite_iff: "is_finite v \<longleftrightarrow> (\<exists>q. v = Fin q)"
  by (cases v) auto

lemma set_field_errors:
  "set (field_errors nts (JObj ps) f) =
     {e. (e = NotNumber f \<and> \<not> is_finite (to_number nts (obj_get ps f))) \<or>
         (e = NotPositive f \<and> (f = ''width'' \<or> f = ''height'') \<and>
            (\<exists>q. to_number nts (obj_get ps f) = Fin q \<and> q \<le> 0)) \<or>
         (e = IsNegative f \<and> (f = ''x'' \<or> f = ''y'') \<and>
            (\<exists>q. to_number nts (obj_get ps f) = Fin q \<and> q < 0))}"
  by (cases "to_number nts (obj_get ps f)")
     (auto simp: field_errors_def numeric_value_obj num_le_def Let_def)

lemma errors_validateAreaBounds_obj:
  "errors (validateAreaBounds nts (JObj ps) nw nh) =
     field_errors nts (JObj ps) ''x'' @ field_errors nts (JObj ps) ''y'' @
     field_errors nts (JObj ps) ''width'' @ field_errors nts (JObj ps) ''height'' @
     (if is_finite (to_number nts (obj_get ps ''x'')) \<and> is_finite (to_number nts (obj_get ps ''width'')) \<and>
         num_gt (num_add (to_number nts (obj_get ps ''x'')) (to_number nts (obj_get ps ''width''))) nw
      then [BeyondRight] else []) @
     (if is_finite (to_number nts (obj_get ps ''y'')) \<and> is_finite (to_number nts (obj_get ps ''height'')) \<and>
         num_gt (num_add (to_number nts (obj_get ps ''y'')) (to_number nts (obj_get ps ''height''))) nh
      then [BeyondBottom] else [])"
  by (simp add: validateAreaBounds_def numeric_value_obj Let_def)

lemma isValid_validateAreaBounds:
  "isValid (validateAreaBounds nts cfg nw nh) \<longleftrightarrow> errors (validateAreaBounds nts cfg nw nh) = []"
  by (simp add: validateAreaBounds_def Let_def)

lemma beyond_iff:
  "is_finite x \<and> is_finite w \<and> num_gt (num_add x w) n \<longleftrightarrow>
     (\<exists>a b. x = Fin a \<and> w = Fin b \<and> num_gt (Fin (a + b)) n)"
  by (cases x; cases w) auto

lemma bounds_general:
  "(NotNumber f \<in> set (errors (validateAreaBounds nts (JObj ps) nw nh)) \<longleftrightarrow>
      f \<in> set numeric_fields \<and> \<not> is_finite (to_number nts (obj_get ps f)))"
  "(NotPositive f \<in> set (errors (validateAreaBounds nts (JObj ps) nw nh)) \<longleftrightarrow>
      (f = ''width'' \<or> f = ''height'') \<and> (\<exists>q. to_number nts (obj_get ps f) = Fin q \<and> q \<le> 0))"
  "(IsNegative f \<in> set (errors (validateAreaBounds nts (JObj ps) nw nh)) \<longleftrightarrow>
      (f = ''x'' \<or> f = ''y'') \<and> (\<exists>q. to_number nts (obj_get ps f) = Fin q \<and> q < 0))"
  "(BeyondRight \<in> set (errors (validateAreaBounds nts (JObj ps) nw nh)) \<longleftrightarrow>
      (\<exists>a b. to_number nts (obj_get ps ''x'') = Fin a \<and> to_number nts (obj_get ps ''width'') = Fin b \<and>
             num_gt (Fin (a + b)) nw))"
  "(BeyondBottom \<in> set (errors (validateAreaBounds nts (JObj ps) nw nh)) \<longleftrightarrow>
      (\<exists>a b. to_number nts (obj_get ps ''y'') = Fin a \<and> to_number nts (obj_get ps ''height'') = Fin b \<and>
             num_gt (Fin (a + b)) nh))"
  "BadConfig \<notin> set (errors (validateAreaBounds nts (JObj ps) nw nh))"
  unfolding errors_validateAreaBounds_obj
  by (auto simp: set_field_errors numeric_fields_def is_finite_iff)

section \<open>Properties of the schema validator\<close>

lemma check_required_obj:
  "check_required (JObj ps) i fs =
     (case filter (\<lambda>f. obj_get ps f = JUndefined) fs of
        [] \<Rightarrow> Inr ()
      | f # others \<Rightarrow> Inl (MissingField (i + 1) f))"
  by (induction fs) auto

lemma validate_area_missing:
  assumes "filter (\<lambda>f. obj_get ps f = JUndefined) required_fields \<noteq> []"
  shows "validate_area nts (JObj ps) i =
           Inl (MissingField (i + 1) (hd (filter (\<lambda>f. obj_get ps f = JUndefined) required_fields)))"
  using assms by (simp add: validate_area_def check_required_obj split: list.splits)

lemma validate_areas_stops:
  "validate_areas nts i pre = Inr pre' \<Longrightarrow> validate_area nts a (i + length pre) = Inl e \<Longrightarrow>
   validate_areas nts i (pre @ a # post) = Inl e"
proof (induction pre arbitrary: i pre')
  case Nil
  then show ?case by simp
next
  case (Cons p pre)
  from Cons.prems(1) obtain p' rest' where
    p: "validate_area nts p i = Inr p'" and r: "validate_areas nts (i + 1) pre = Inr rest'"
    by (auto split: sum.splits)
  from Cons.prems(2) have "validate_area nts a (i + 1 + length pre) = Inl e" by simp
  from Cons.IH[OF r this] p show ?case by simp
qed

lemma obj_get_obj_set: "obj_get (obj_set ps k v) k' = (if k' = k then v else obj_get ps k')"
  by (induction ps) (auto simp: obj_get_def)

lemma coerce_fields_obj:
  "coerce_fields nts (JObj ps) fs = Inr (JObj (foldl (coerced nts) ps fs))"
  by (induction fs arbitrary: ps) (auto simp: coerced_def)

lemma obj_get_coerced:
  "obj_get (coerced nts ps f) k =
     (if k = f \<and> obj_get ps f \<noteq> JUndefined then coerce_number nts (obj_get ps f) else obj_get ps k)"
  by (simp add: coerced_def obj_get_obj_set)

lemma obj_get_coerced_all:
  "obj_get (foldl (coerced nts) ps numeric_fields) k =
     (if k \<in> set numeric_fields \<and> obj_get ps k \<noteq> JUndefined then coerce_number nts (obj_get ps k)
      else obj_get ps k)"
  by (auto simp: numeric_fields_def obj_get_coerced)

lemma check_types_ok:
  "\<forall>(f, t) \<in> set ts. obj_get ps f = JUndefined \<or> typeof (obj_get ps f) = t \<Longrightarrow>
   check_types (JObj ps) i ts = Inr ()"
  by (induction ts) auto

lemma check_types_error:
  "check_types (JObj ps) i ts = Inl e \<Longrightarrow>
   \<exists>f t. (f, t) \<in> set ts \<and> e = WrongType f (i + 1) t \<and>
         obj_get ps f \<noteq> JUndefined \<and> typeof (obj_get ps f) \<noteq> t"
  by (induction ts) (auto split: if_splits)

lemma typeof_coerced_numeric:
  "k \<in> set numeric_fields \<Longrightarrow>
   obj_get (foldl (coerced nts) ps numeric_fields) k = JUndefined \<or>
   typeof (obj_get (foldl (coerced nts) ps numeric_fields) k) = ''number''"
  by (simp add: obj_get_coerced_all coerce_number_def)

lemma obj_get_coerced_other:
  "k \<notin> set numeric_fields \<Longrightarrow> obj_get (foldl (coerced nts) ps numeric_fields) k = obj_get ps k"
  by (simp add: obj_get_coerced_all)

lemma validate_area_region:
  assumes req: "\<forall>f \<in> set required_fields. obj_get ps f \<noteq> JUndefined"
    and name: "typeof (obj_get ps ''name'') = ''string''"
    and field: "typeof (obj_get ps ''matchField'') = ''string''"
    and val: "obj_get ps ''matchValue'' = JUndefined \<or> typeof (obj_get ps ''matchValue'') = ''string''"
  shows "validate_area nts (JObj ps) i = Inr (JObj (foldl (coerced nts) ps numeric_fields))"
proof -
  let ?ps' = "foldl (coerced nts) ps numeric_fields"
  have 1: "check_required (JObj ps) i required_fields = Inr ()"
  proof -
    have "filter (\<lambda>f. obj_get ps f = JUndefined) required_fields = []"
      using req by (simp add: filter_empty_conv)
    then show ?thesis by (simp add: check_required_obj)
  qed
  have others: "obj_get ?ps' ''name'' = obj_get ps ''name''"
       "obj_get ?ps' ''matchField'' = obj_get ps ''matchField''"
       "obj_get ?ps' ''matchValue'' = obj_get ps ''matchValue''"
    by (simp_all add: obj_get_coerced numeric_fields_def)
  have nums: "obj_get ?ps' ''x'' = JUndefined \<or> typeof (obj_get ?ps' ''x'') = ''number''"
       "obj_get ?ps' ''y'' = JUndefined \<or> typeof (obj_get ?ps' ''y'') = ''number''"
       "obj_get ?ps' ''width'' = JUndefined \<or> typeof (obj_get ?ps' ''width'') = ''number''"
       "obj_get ?ps' ''height'' = JUndefined \<or> typeof (obj_get ?ps' ''height'') = ''number''"
    by (rule typeof_coerced_numeric, simp add: numeric_fields_def)+
  have 2: "check_types (JObj ?ps') i propertyTypes = Inr ()"
    apply (rule check_types_ok)
    unfolding propertyTypes_def
    using name field val nums others by simp
  show ?thesis
    by (simp add: validate_area_def 1 2 coerce_fields_obj)
qed

lemma nat_to_string_digits: "set (nat_to_string n) \<subseteq> set ''0123456789''"
proof (induction n rule: nat_to_string.induct)
  case (1 n)
  have d: "\<And>k. k < 10 \<Longrightarrow> ''0123456789'' ! k \<in> set ''0123456789''"
    by (rule nth_mem) simp
  show ?case
  proof (cases "n < 10")
    case True
    then show ?thesis using d[of n] by (subst nat_to_string.simps) simp
  next
    case False
    have "n mod 10 < 10" by simp
    with 1 False d[of "n mod 10"] show ?thesis
      by (subst nat_to_string.simps) simp
  qed
qed

lemma find_index_name: "find (\<lambda>i. nat_to_string i = ''name'') ns = None"
proof -
  have "nat_to_string i \<noteq> ''name''" for i
  proof
    assume "nat_to_string i = ''name''"
    with nat_to_string_digits[of i] show False by simp
  qed
  then show ?thesis by (simp add: find_None_iff)
qed

lemma check_required_not_object:
  "\<forall>ps. area \<noteq> JObj ps \<Longrightarrow>
   check_required area i required_fields = Inl TypeError \<or>
   check_required area i required_fields = Inl (MissingField (i + 1) ''name'')"
  by (cases area) (simp_all add: required_fields_def find_index_name)

lemma validate_area_never_number_error:
  assumes f: "f \<in> set numeric_fields"
  shows "validate_area nts area i \<noteq> Inl (WrongType f j t)"
proof (cases "\<exists>ps. area = JObj ps")
  case False
  then have "\<forall>ps. area \<noteq> JObj ps" by simp
  from check_required_not_object[OF this, of i] show ?thesis
    by (auto simp: validate_area_def)
next
  case True
  then obtain ps where area: "area = JObj ps" by blast
  let ?ps' = "foldl (coerced nts) ps numeric_fields"
  show ?thesis
  proof
    assume bad: "validate_area nts area i = Inl (WrongType f j t)"
    have "check_required (JObj ps) i required_fields \<noteq> Inl (WrongType f j t)"
      by (simp add: check_required_obj split: list.splits)
    with bad have "check_types (JObj ?ps') i propertyTypes = Inl (WrongType f j t)"
      by (auto simp: validate_area_def area coerce_fields_obj split: sum.splits)
    from check_types_error[OF this] have ft: "(f, t) \<in> set propertyTypes"
      and def: "obj_get ?ps' f \<noteq> JUndefined"
      and ty: "typeof (obj_get ?ps' f) \<noteq> t" by auto
    from ft f have t: "t = ''number''" by (auto simp: propertyTypes_def numeric_fields_def)
    from typeof_coerced_numeric[OF f, of nts ps] def ty t show False by simp
  qed
qed

lemmas eval_numbers =
  string_to_number_def non_decimal_def unsigned_decimal_def exponent_part_def
  number_of_rat_def scale10_def digits_value_def digit_value_def is_digit_def

section \<open>Claims about the bounds and the schema of a region\<close>



text \<open>
  C9. A region object has the required fields, a string as name and as matchField, and
  a string or nothing as matchValue. If x, y, width or height of such an object holds a
  string that does not denote a number, the schema validator raises no error: it stores
  \<open>NaN\<close> in the field, whose type is number. The bounds validation then reports the field
  as no number. No input at all makes the validator raise the type error of a numeric
  field.
\<close>

theorem non_numeric_string_passes_schema:
  assumes "\<forall>f \<in> set required_fields. obj_get ps f \<noteq> JUndefined"
    and "typeof (obj_get ps ''name'') = ''string''"
    and "typeof (obj_get ps ''matchField'') = ''string''"
    and "obj_get ps ''matchValue'' = JUndefined \<or> typeof (obj_get ps ''matchValue'') = ''string''"
    and "fld \<in> set numeric_fields"
    and "obj_get ps fld = JStr s"
    and "string_to_number (replace_first CHR '','' ''.'' s) = NaN"
  shows "(\<exists>ps'. validateInteractiveAreasData nts (JArr [JObj ps]) = Inr (JArr [JObj ps']) \<and>
            obj_get ps' fld = JNum NaN \<and>
            typeof (obj_get ps' fld) = ''number'' \<and>
            NotNumber fld \<in> set (errors (validateAreaBounds nts (JObj ps') nw nh)) \<and>
            \<not> isValid (validateAreaBounds nts (JObj ps') nw nh)) \<and>
         validate_area nts area i \<noteq> Inl (WrongType fld j t)"
proof -
  let ?ps' = "foldl (coerced nts) ps numeric_fields"
  have v: "validate_area nts (JObj ps) 0 = Inr (JObj ?ps')"
    using assms(1-4) by (rule validate_area_region)
  have nan: "obj_get ?ps' fld = JNum NaN"
    using assms(5-7) by (simp add: obj_get_coerced_all coerce_number_def)
  then have e: "NotNumber fld \<in> set (errors (validateAreaBounds nts (JObj ?ps') nw nh))"
    using assms(5) by (simp add: bounds_general(1))
  then have "errors (validateAreaBounds nts (JObj ?ps') nw nh) \<noteq> []" by auto
  then have "\<not> isValid (validateAreaBounds nts (JObj ?ps') nw nh)"
    by (simp add: isValid_validateAreaBounds)
  with v nan e have "\<exists>ps'. validateInteractiveAreasData nts (JArr [JObj ps]) = Inr (JArr [JObj ps']) \<and>
            obj_get ps' fld = JNum NaN \<and>
            typeof (obj_get ps' fld) = ''number'' \<and>
            NotNumber fld \<in> set (errors (validateAreaBounds nts (JObj ps') nw nh)) \<and>
            \<not> isValid (validateAreaBounds nts (JObj ps') nw nh)"
    by (intro exI[of _ ?ps']) (simp add: validateInteractiveAreasData_def)
  then show ?thesis
    using validate_area_never_number_error[OF assms(5)] by blast
qed

theorem non_numeric_string_passes_schema_witness:
  "\<forall>nts. \<exists>ps'.
     validateInteractiveAreasData nts
       (JArr [JObj [(''name'', JStr ''Dock A''), (''x'', JStr ''abc''), (''y'', JNum (Fin 10)),
                    (''width'', JNum (Fin 100)), (''height'', JNum (Fin 100)),
                    (''matchField'', JStr ''berth'')]]) = Inr (JArr [JObj ps']) \<and>
     obj_get ps' ''x'' = JNum NaN \<and>
     NotNumber ''x'' \<in> set (errors (validateAreaBounds nts (JObj ps') (Fin 90) (Fin 200)))"
proof
  fix nts
  let ?ps = "[(''name'', JStr ''Dock A''), (''x'', JStr ''abc''), (''y'', JNum (Fin 10)),
              (''width'', JNum (Fin 100)), (''height'', JNum (Fin 100)),
              (''matchField'', JStr ''berth'')]"
  have 1: "\<forall>f \<in> set required_fields. obj_get ?ps f \<noteq> JUndefined"
    by (simp add: required_fields_def obj_get_def)
  have 2: "typeof (obj_get ?ps ''name'') = ''string''" by (simp add: obj_get_def)
  have 3: "typeof (obj_get ?ps ''matchField'') = ''string''" by (simp add: obj_get_def)
  have 4: "obj_get ?ps ''matchValue'' = JUndefined \<or> typeof (obj_get ?ps ''matchValue'') = ''string''"
    by (simp add: obj_get_def)
  have 5: "''x'' \<in> set numeric_fields" by (simp add: numeric_fields_def)
  have 6: "obj_get ?ps ''x'' = JStr ''abc''" by (simp add: obj_get_def)
  have 7: "string_to_number (replace_first CHR '','' ''.'' ''abc'') = NaN"
    by (simp add: eval_numbers eval_strings)
  from non_numeric_string_passes_schema[OF 1 2 3 4 5 6 7, of nts "Fin 90" "Fin 200"]
  show "\<exists>ps'.
     validateInteractiveAreasData nts (JArr [JObj ?ps]) = Inr (JArr [JObj ps']) \<and>
     obj_get ps' ''x'' = JNum NaN \<and>
     NotNumber ''x'' \<in> set (errors (validateAreaBounds nts (JObj ps') (Fin 90) (Fin 200)))"
    by blast
qed

section \<open>Properties of the JSON tokens\<close>

























lemmas eval_json =
  scan_token_def punctuation_def json_space_def simple_escape_def scan_number_def
  frac_part_def exp_part_def number_of_rat_def scale10_def digits_value_def digit_value_def
  is_digit_def lower_char_def upper_chars_def lower_chars_def

lemmas eval_parse = start_value_def close_array_def close_object_def read_key_def

lemma build_comma: \<open>buildJsonFromObjectStrings ''[{name: Pier A, x: 10, y: 5,5}]''
   = ''[{"name": "Pier A", "x": 10, "y": 5,5}]''\<close>
  by code_simp

lemma build_point: \<open>buildJsonFromObjectStrings ''[{name: Pier A, x: 10, y: 5.5}]''
   = ''[{"name": "Pier A", "x": 10, "y": 5.5}]''\<close>
  by code_simp

lemma tokens_comma: \<open>tokenize ''[{"name": "Pier A", "x": 10, "y": 5,5}]''
   = Some [TLBracket, TLBrace, TString ''name'', TColon, TString ''Pier A'', TComma,
           TString ''x'', TColon, TNumber (Fin 10), TComma, TString ''y'', TColon,
           TNumber (Fin 5), TComma, TNumber (Fin 5), TRBrace, TRBracket]\<close>
  by (simp add: eval_json)

lemma tokens_point: \<open>tokenize ''[{"name": "Pier A", "x": 10, "y": 5.5}]''
   = Some [TLBracket, TLBrace, TString ''name'', TColon, TString ''Pier A'', TComma,
           TString ''x'', TColon, TNumber (Fin 10), TComma, TString ''y'', TColon,
           TNumber (Fin (11 / 2)), TRBrace, TRBracket]\<close>
  by (simp add: eval_json)

lemma parse_comma: \<open>json_parse ''[{"name": "Pier A", "x": 10, "y": 5,5}]'' = None\<close>
  unfolding json_parse_def tokens_comma by (simp add: eval_parse)

lemma parse_point: \<open>json_parse ''[{"name": "Pier A", "x": 10, "y": 5.5}]''
   = Some (JArr [JObj [(''name'', JStr ''Pier A''), (''x'', JNum (Fin 10)), (''y'', JNum (Fin (11 / 2)))]])\<close>
  unfolding json_parse_def tokens_point by (simp add: eval_parse)

lemma raw_comma: \<open>json_parse ''[{name: Pier A, x: 10, y: 5,5}]'' = None\<close>
  by (simp add: json_parse_def eval_json)

lemma raw_point: \<open>json_parse ''[{name: Pier A, x: 10, y: 5.5}]'' = None\<close>
  by (simp add: json_parse_def eval_json)

lemma trim_comma: \<open>js_trim ''[{name: Pier A, x: 10, y: 5,5}]'' = ''[{name: Pier A, x: 10, y: 5,5}]''\<close>
  by (simp add: js_trim_def is_space_def)

lemma trim_point: \<open>js_trim ''[{name: Pier A, x: 10, y: 5.5}]'' = ''[{name: Pier A, x: 10, y: 5.5}]''\<close>
  by (simp add: js_trim_def is_space_def)

section \<open>Claims about the tolerant parser\<close>

text \<open>
  C2. On the text \<open>[{name: Pier A, x: 10, y: 5,5}]\<close> the repair pass quotes the keys and
  the name, and leaves the comma of \<open>5,5\<close> in the text it builds: the pattern of the
  values stops a value at a comma, so the branch that rewrites a decimal comma never sees
  one. \<open>JSON.parse\<close> refuses the text built, and the repair pass throws instead of
  producing the record. With a decimal point the record is produced.
\<close>

theorem repair_pass_comma_decimal:
  \<open>buildJsonFromObjectStrings ''[{name: Pier A, x: 10, y: 5,5}]''
     = ''[{"name": "Pier A", "x": 10, "y": 5,5}]'' \<and>
   json_parse ''[{"name": "Pier A", "x": 10, "y": 5,5}]'' = None \<and>
   parseObjectsStringManually ''[{name: Pier A, x: 10, y: 5,5}]'' = Inl SyntaxError \<and>
   parseDataString (JStr ''[{name: Pier A, x: 10, y: 5,5}]'') = Inl SyntaxError \<and>
   parseDataString (JStr ''[{name: Pier A, x: 10, y: 5.5}]'')
     = Inr (JArr [JObj [(''name'', JStr ''Pier A''), (''x'', JNum (Fin 10)),
                        (''y'', JNum (Fin (11 / 2)))]])\<close>
proof -
  have 1: "parseObjectsStringManually ''[{name: Pier A, x: 10, y: 5,5}]'' = Inl SyntaxError"
    unfolding parseObjectsStringManually_def build_comma parse_comma by simp
  have 2: "parseDataString (JStr ''[{name: Pier A, x: 10, y: 5,5}]'') = Inl SyntaxError"
    unfolding parseDataString_def parseDataString_with_def
    by (simp add: trim_comma raw_comma 1 Let_def)
  have 3: \<open>parseObjectsStringManually ''[{name: Pier A, x: 10, y: 5.5}]''
     = Inr (JArr [JObj [(''name'', JStr ''Pier A''), (''x'', JNum (Fin 10)),
                        (''y'', JNum (Fin (11 / 2)))]])\<close>
    unfolding parseObjectsStringManually_def build_point parse_point by simp
  have 4: "parseDataString (JStr ''[{name: Pier A, x: 10, y: 5.5}]'')
     = Inr (JArr [JObj [(''name'', JStr ''Pier A''), (''x'', JNum (Fin 10)),
                        (''y'', JNum (Fin (11 / 2)))]])"
    unfolding parseDataString_def parseDataString_with_def
    by (simp add: trim_point raw_point 3 Let_def)
  from build_comma parse_comma 1 2 4 show ?thesis by (intro conjI)
qed




section \<open>Properties of the consistency checker\<close>

lemma read_prop_obj: "read_prop (JObj ps) k = obj_get ps k"
  by (simp add: read_prop_def)


lemma main_help: "load fs argv = Help \<Longrightarrow> main nts fs argv = \<lparr>exit_code = 0, printed = [Usage]\<rparr>"
  by (simp add: main_def)










lemma shape_objects_ok:
  "\<forall>r \<in> set objs. \<forall>g \<in> set REQUIRED_AREA_FIELDS. obj_get r g \<noteq> JUndefined \<Longrightarrow>
   validateAreasShape_from i (map JObj objs @ rest) =
     (case validateAreasShape_from (i + length objs) rest of
        Inl e \<Rightarrow> Inl e | Inr rest' \<Rightarrow> Inr (map JObj objs @ rest'))"
proof (induction objs arbitrary: i)
  case Nil
  show ?case by (simp split: sum.splits)
next
  case (Cons r objs)
  then have "find (\<lambda>field. obj_get r field = JUndefined) REQUIRED_AREA_FIELDS = None"
    by (simp add: find_None_iff)
  with Cons.IH[of "Suc i"] Cons.prems show ?case
    by (simp add: read_prop_obj split: sum.splits)
qed

lemma find_first_filter: "filter P xs \<noteq> [] \<Longrightarrow> find P xs = Some (hd (filter P xs))"
  by (induction xs) auto

lemma shape_object_missing:
  assumes "\<forall>r \<in> set objs. \<forall>g \<in> set REQUIRED_AREA_FIELDS. obj_get r g \<noteq> JUndefined"
    and "filter (\<lambda>g. obj_get ps g = JUndefined) REQUIRED_AREA_FIELDS \<noteq> []"
  shows "validateAreasShape (map JObj objs @ JObj ps # post) =
           Inl (AreaMissingField (length objs + 1)
                  (hd (filter (\<lambda>g. obj_get ps g = JUndefined) REQUIRED_AREA_FIELDS)))"
  unfolding validateAreasShape_def shape_objects_ok[OF assms(1)]
  using find_first_filter[OF assms(2)] by (simp add: read_prop_obj)











section \<open>Claims about the consistency checker\<close>



lemma normalize_undefined: "normalizeStringValue nts JUndefined = []"
  by (simp add: normalizeStringValue_def)

lemma filter_empty_target:
  "normalizeStringValue nts target = [] \<Longrightarrow>
   filterDataByObject nts (JArr (map JObj recs)) f target =
     Inr (map JObj (filter (\<lambda>r. to_boolean (obj_get r f)) recs))"
  by (simp add: filterDataByObject_objects values_match_def)

lemma area_warning_blank_value:
  assumes "trimmed_string (read_prop a ''matchField'') \<noteq> []"
    and "trimmed_string (if read_prop a ''matchValue'' \<noteq> JUndefined then read_prop a ''matchValue''
                         else read_prop a ''name'') = []"
  shows "area_warning nts d a i = Some (Warning (area_label a i) ''matchValue is missing or empty'')"
  using assms by (simp add: area_warning_def Let_def)

text \<open>
  C3 (as amended). The matcher has no check of the match value: for a match value whose
  normalized form is empty (the empty string, a missing value) it returns every record
  whose value at the field is truthy. It is the consistency checker that reports such a
  region: when the match field is a non-blank string and the match value (the name, when
  the region has no matchValue) is not, the warning is "matchValue is missing or empty".
\<close>

theorem empty_match_value:
  "(normalizeStringValue nts target = [] \<longrightarrow>
      filterDataByObject nts (JArr (map JObj recs)) f target =
        Inr (map JObj (filter (\<lambda>r. to_boolean (obj_get r f)) recs))) \<and>
   normalizeStringValue nts (JStr []) = [] \<and>
   normalizeStringValue nts JUndefined = [] \<and>
   (trimmed_string (read_prop a ''matchField'') \<noteq> [] \<and>
    trimmed_string (if read_prop a ''matchValue'' \<noteq> JUndefined then read_prop a ''matchValue''
                    else read_prop a ''name'') = [] \<longrightarrow>
      area_warning nts d a i = Some (Warning (area_label a i) ''matchValue is missing or empty''))"
  using filter_empty_target[of nts target recs f] area_warning_blank_value[of a nts d i]
  by (simp add: normalize_empty normalize_undefined)

theorem empty_match_value_witness:
  "\<forall>nts.
     filterDataByObject nts
       (JArr (map JObj [[(''berth'', JStr ''A1'')], [(''ship'', JStr ''Aurora'')],
                        [(''berth'', JStr ''B2'')]]))
       ''berth'' (JStr [])
     = Inr (map JObj [[(''berth'', JStr ''A1'')], [(''berth'', JStr ''B2'')]]) \<and>
     area_warning nts [JObj [(''berth'', JStr ''A1'')]] (example_area []) 0
     = Some (Warning (JStr ''Dock A'') ''matchValue is missing or empty'')"
proof (intro allI conjI)
  fix nts
  from empty_match_value[of nts "JStr []" "[[(''berth'', JStr ''A1'')], [(''ship'', JStr ''Aurora'')],
                        [(''berth'', JStr ''B2'')]]" "''berth''"]
  show "filterDataByObject nts
       (JArr (map JObj [[(''berth'', JStr ''A1'')], [(''ship'', JStr ''Aurora'')],
                        [(''berth'', JStr ''B2'')]]))
       ''berth'' (JStr [])
     = Inr (map JObj [[(''berth'', JStr ''A1'')], [(''berth'', JStr ''B2'')]])"
    by (simp add: normalize_empty obj_get_def)
  have 1: "trimmed_string (read_prop (example_area []) ''matchField'') \<noteq> []"
    by (simp add: example_area_def read_prop_obj obj_get_def trimmed_string_def js_trim_def is_space_def)
  have 2: "trimmed_string (if read_prop (example_area []) ''matchValue'' \<noteq> JUndefined
                           then read_prop (example_area []) ''matchValue''
                           else read_prop (example_area []) ''name'') = []"
    by (simp add: example_area_def read_prop_obj obj_get_def trimmed_string_def js_trim_def)
  have 3: "area_label (example_area []) 0 = JStr ''Dock A''"
    by (simp add: example_area_def read_prop_obj obj_get_def area_label_def js_or_def)
  from empty_match_value[of nts _ _ _ "example_area []" "[JObj [(''berth'', JStr ''A1'')]]" 0] 1 2 3
  show "area_warning nts [JObj [(''berth'', JStr ''A1'')]] (example_area []) 0
     = Some (Warning (JStr ''Dock A'') ''matchValue is missing or empty'')"
    by simp
qed

text \<open>
  C3 as it is written fails: with the empty string, and with no match value, the matcher
  returns every record of a set whose records all have the field.
\<close>

theorem empty_match_value_counterexample:
  "\<forall>nts.
     filterDataByObject nts (JArr [JObj [(''berth'', JStr ''A1'')], JObj [(''berth'', JStr ''B2'')]])
       ''berth'' (JStr [])
     = Inr [JObj [(''berth'', JStr ''A1'')], JObj [(''berth'', JStr ''B2'')]] \<and>
     filterDataByObject nts (JArr [JObj [(''berth'', JStr ''A1'')], JObj [(''berth'', JStr ''B2'')]])
       ''berth'' JUndefined
     = Inr [JObj [(''berth'', JStr ''A1'')], JObj [(''berth'', JStr ''B2'')]]"
proof (intro allI conjI)
  fix nts
  show "filterDataByObject nts (JArr [JObj [(''berth'', JStr ''A1'')], JObj [(''berth'', JStr ''B2'')]])
       ''berth'' (JStr [])
     = Inr [JObj [(''berth'', JStr ''A1'')], JObj [(''berth'', JStr ''B2'')]]"
    using filter_empty_target[OF normalize_empty, of nts "[[(''berth'', JStr ''A1'')], [(''berth'', JStr ''B2'')]]" "''berth''"]
    by (simp add: obj_get_def)
  show "filterDataByObject nts (JArr [JObj [(''berth'', JStr ''A1'')], JObj [(''berth'', JStr ''B2'')]])
       ''berth'' JUndefined
     = Inr [JObj [(''berth'', JStr ''A1'')], JObj [(''berth'', JStr ''B2'')]]"
    using filter_empty_target[OF normalize_undefined, of nts "[[(''berth'', JStr ''A1'')], [(''berth'', JStr ''B2'')]]" "''berth''"]
    by (simp add: obj_get_def)
qed

text \<open>
  C5 (as amended). The schema validator stops at the first area it refuses. If an object
  lacks a required field and every object before it passes the validator, the validator
  fails with the error that names the first required field the object lacks and the
  1-based index of the object. The shape check of the consistency checker, which checks
  no types, does so whenever the objects before have the required fields.
\<close>

theorem missing_field_is_named:
  assumes "validate_areas nts 0 pre = Inr pre'"
    and "f \<in> set required_fields"
    and "obj_get ps f = JUndefined"
    and "\<forall>r \<in> set objs. \<forall>g \<in> set REQUIRED_AREA_FIELDS. obj_get r g \<noteq> JUndefined"
  shows "validateInteractiveAreasData nts (JArr (pre @ JObj ps # post)) =
           Inl (MissingField (length pre + 1)
                  (hd (filter (\<lambda>g. obj_get ps g = JUndefined) required_fields))) \<and>
         hd (filter (\<lambda>g. obj_get ps g = JUndefined) required_fields) \<in> set required_fields \<and>
         obj_get ps (hd (filter (\<lambda>g. obj_get ps g = JUndefined) required_fields)) = JUndefined \<and>
         validateAreasShape (map JObj objs @ JObj ps # post') =
           Inl (AreaMissingField (length objs + 1)
                  (hd (filter (\<lambda>g. obj_get ps g = JUndefined) required_fields)))"
proof -
  let ?missing = "filter (\<lambda>g. obj_get ps g = JUndefined) required_fields"
  from assms(2,3) have ne: "?missing \<noteq> []" by (auto simp: filter_empty_conv)
  then have "hd ?missing \<in> set ?missing" by (rule hd_in_set)
  then have h: "hd ?missing \<in> set required_fields" "obj_get ps (hd ?missing) = JUndefined"
    by auto
  have "validate_area nts (JObj ps) (0 + length pre) = Inl (MissingField (length pre + 1) (hd ?missing))"
    using validate_area_missing[OF ne] by simp
  from validate_areas_stops[OF assms(1) this]
  have 1: "validateInteractiveAreasData nts (JArr (pre @ JObj ps # post)) =
             Inl (MissingField (length pre + 1) (hd ?missing))"
    by (simp add: validateInteractiveAreasData_def)
  have same: "REQUIRED_AREA_FIELDS = required_fields"
    by (simp add: REQUIRED_AREA_FIELDS_def required_fields_def)
  from ne have ne': "filter (\<lambda>g. obj_get ps g = JUndefined) REQUIRED_AREA_FIELDS \<noteq> []"
    by (simp add: same)
  from shape_object_missing[OF assms(4) ne', of post'] have 2:
    "validateAreasShape (map JObj objs @ JObj ps # post') =
       Inl (AreaMissingField (length objs + 1) (hd ?missing))"
    by (simp add: same)
  from 1 h 2 show ?thesis by simp
qed

theorem missing_field_is_named_witness:
  "\<forall>nts.
     validateInteractiveAreasData nts
       (JArr [example_area ''A1'', JObj region_without_matchField, JObj []])
       = Inl (MissingField 2 ''matchField'') \<and>
     validateAreasShape [example_area ''A1'', JObj region_without_matchField, JObj []]
       = Inl (AreaMissingField 2 ''matchField'')"
proof
  fix nts
  let ?first = "[(''name'', JStr ''Dock A''), (''x'', JNum (Fin 0)), (''y'', JNum (Fin 0)),
           (''width'', JNum (Fin 1)), (''height'', JNum (Fin 1)), (''matchField'', JStr ''berth''),
           (''matchValue'', JStr ''A1'')]"
  have a: "example_area ''A1'' = JObj ?first" by (simp add: example_area_def)
  have "validate_area nts (JObj ?first) 0 = Inr (JObj (foldl (coerced nts) ?first numeric_fields))"
    by (rule validate_area_region) (simp_all add: required_fields_def obj_get_def)
  then have 1: "validate_areas nts 0 [example_area ''A1'']
                  = Inr [JObj (foldl (coerced nts) ?first numeric_fields)]"
    by (simp add: a)
  have 2: "''matchField'' \<in> set required_fields" by (simp add: required_fields_def)
  have 3: "obj_get region_without_matchField ''matchField'' = JUndefined"
    by (simp add: region_without_matchField_def obj_get_def)
  have 4: "\<forall>r \<in> set [?first]. \<forall>g \<in> set REQUIRED_AREA_FIELDS. obj_get r g \<noteq> JUndefined"
    by (simp add: REQUIRED_AREA_FIELDS_def obj_get_def)
  have 5: "hd (filter (\<lambda>g. obj_get region_without_matchField g = JUndefined) required_fields)
             = ''matchField''"
    by (simp add: region_without_matchField_def obj_get_def required_fields_def)
  from missing_field_is_named[OF 1 2 3 4, of "[JObj []]" "[JObj []]"]
  show "validateInteractiveAreasData nts
       (JArr [example_area ''A1'', JObj region_without_matchField, JObj []])
       = Inl (MissingField 2 ''matchField'') \<and>
     validateAreasShape [example_area ''A1'', JObj region_without_matchField, JObj []]
       = Inl (AreaMissingField 2 ''matchField'')"
    by (simp add: 5 a)
qed

text \<open>
  C5 as it is written fails: when an earlier object has the required fields and a number
  as its name, the validator fails with the type error of that object, and the error
  names neither a missing field nor the object that lacks one.
\<close>

theorem missing_field_counterexample:
  "\<forall>nts.
     validateInteractiveAreasData nts
       (JArr [JObj [(''name'', JNum (Fin 5)), (''x'', JNum (Fin 0)), (''y'', JNum (Fin 0)),
                    (''width'', JNum (Fin 1)), (''height'', JNum (Fin 1)),
                    (''matchField'', JStr ''berth'')],
              JObj region_without_matchField])
       = Inl (WrongType ''name'' 1 ''string'')"
proof
  fix nts
  let ?bad = "[(''name'', JNum (Fin 5)), (''x'', JNum (Fin 0)), (''y'', JNum (Fin 0)),
               (''width'', JNum (Fin 1)), (''height'', JNum (Fin 1)),
               (''matchField'', JStr ''berth'')]"
  have r: "check_required (JObj ?bad) 0 required_fields = Inr ()"
    by (simp add: check_required_obj required_fields_def obj_get_def)
  have n: "obj_get (foldl (coerced nts) ?bad numeric_fields) ''name'' = JNum (Fin 5)"
    unfolding obj_get_coerced_all by (simp add: numeric_fields_def obj_get_def)
  have t: "check_types (JObj (foldl (coerced nts) ?bad numeric_fields)) 0 propertyTypes
             = Inl (WrongType ''name'' 1 ''string'')"
    by (simp add: propertyTypes_def n)
  have "validate_area nts (JObj ?bad) 0 = Inl (WrongType ''name'' 1 ''string'')"
    by (simp add: validate_area_def r coerce_fields_obj t)
  then show "validateInteractiveAreasData nts (JArr [JObj ?bad, JObj region_without_matchField])
       = Inl (WrongType ''name'' 1 ''string'')"
    by (simp add: validateInteractiveAreasData_def)
qed

end
